theory Spec2Isabelle
  imports Complex_Main
begin

section \<open>The payment relay of \<open>advanced_checkout.js\<close>\<close>

text \<open>
  The module is an Express application with three POST handlers. Each handler obtains an
  OAuth2 access token from the payment processor (\<open>get_access_token\<close>), issues one further
  call to the processor and relays the outcome. The embedding below follows the source
  statement by statement: every \<open>await fetch(...)\<close> is a call to the processor that is
  appended to a trace, every \<open>throw\<close> and every run-time exception of JavaScript is the
  \<open>Inl\<close> branch of a sum, and every \<open>try { ... } catch\<close> is a case distinction on it.
\<close>

subsection \<open>JavaScript values\<close>

text \<open>
  Request bodies and processor responses are the results of \<open>JSON.parse\<close>; a property that
  is missing reads as \<open>undefined\<close>. A number is a double: every finite double is a rational,
  and a JSON number literal that overflows (\<open>1e999\<close>) parses to \<open>Infinity\<close>. The list of an
  object holds its own properties, each key once.
\<close>

datatype jsnum = Finite rat | PosInfinity | NegInfinity | NaN

datatype jsval =
    JUndefined
  | JNull
  | JBool bool
  | JNum jsnum
  | JStr string
  | JArr "jsval list"
  | JObj "(string \<times> jsval) list"

text \<open>Truthiness, as tested by \<open>if (v)\<close> and \<open>v ? a : b\<close>.\<close>

fun truthy :: "jsval \<Rightarrow> bool" where
  "truthy JUndefined = False"
| "truthy JNull = False"
| "truthy (JBool b) = b"
| "truthy (JNum n) = (case n of Finite r \<Rightarrow> r \<noteq> 0 | NaN \<Rightarrow> False | _ \<Rightarrow> True)"
| "truthy (JStr s) = (s \<noteq> [])"
| "truthy (JArr xs) = True"
| "truthy (JObj ps) = True"

text \<open>
  \<open>JSON.stringify\<close>, up to the concrete syntax: \<open>JSON_value v\<close> is the value denoted by the
  text \<open>JSON.stringify(v)\<close>. A property whose value is \<open>undefined\<close> is left out, an
  \<open>undefined\<close> array element and every non-finite number are written \<open>null\<close>.
\<close>

primrec JSON_value :: "jsval \<Rightarrow> jsval" where
  "JSON_value JUndefined = JUndefined"
| "JSON_value JNull = JNull"
| "JSON_value (JBool b) = JBool b"
| "JSON_value (JNum n) = (case n of Finite r \<Rightarrow> JNum n | _ \<Rightarrow> JNull)"
| "JSON_value (JStr s) = JStr s"
| "JSON_value (JArr xs) =
     JArr (map (\<lambda>v. if v = JUndefined then JNull else v) (map JSON_value xs))"
| "JSON_value (JObj ps) =
     JObj (filter (\<lambda>(k, v). v \<noteq> JUndefined) (map (map_prod id JSON_value) ps))"

text \<open>The values that a JSON text can denote exactly: no \<open>undefined\<close>, no non-finite number.\<close>

fun is_json :: "jsval \<Rightarrow> bool" where
  "is_json JUndefined = False"
| "is_json JNull = True"
| "is_json (JBool b) = True"
| "is_json (JNum n) = (case n of Finite r \<Rightarrow> True | _ \<Rightarrow> False)"
| "is_json (JStr s) = True"
| "is_json (JArr xs) = (\<forall>v \<in> set xs. is_json v)"
| "is_json (JObj ps) = (\<forall>v \<in> snd ` set ps. is_json v)"

subsection \<open>Errors\<close>

text \<open>
  What a \<open>catch\<close> clause can receive: an \<open>Error\<close> thrown by the module itself, a
  \<open>TypeError\<close> or \<open>ReferenceError\<close> raised by the engine, or whatever \<open>fetch\<close> and
  \<open>response.json()\<close> reject with (supplied by the environment).
\<close>

datatype error_kind = Error | TypeError | ReferenceError | SyntaxError | FetchError

datatype js_error = JsError (kind: error_kind) (message: string)

text \<open>
  Reading a property: \<open>undefined\<close> and \<open>null\<close> have none and the read throws; an object
  yields its own property or \<open>undefined\<close>. The property names read by this module
  (\<open>access_token\<close>, \<open>id\<close>, \<open>client_token\<close>, \<open>order_id\<close>, \<open>intent\<close>, \<open>email\<close>,
  \<open>customer_id\<close>) are not defined on the prototypes of arrays, strings, numbers or
  booleans, so they read as \<open>undefined\<close> there.
\<close>

definition get_prop :: "jsval \<Rightarrow> string \<Rightarrow> js_error + jsval" where
  "get_prop v k =
     (case v of
        JUndefined \<Rightarrow> Inl (JsError TypeError
          (''Cannot read properties of undefined (reading '' @ [CHR 0x27] @ k @ [CHR 0x27] @ '')''))
      | JNull \<Rightarrow> Inl (JsError TypeError
          (''Cannot read properties of null (reading '' @ [CHR 0x27] @ k @ [CHR 0x27] @ '')''))
      | JObj ps \<Rightarrow> Inr (case map_of ps k of None \<Rightarrow> JUndefined | Some x \<Rightarrow> x)
      | _ \<Rightarrow> Inr JUndefined)"

text \<open>
  The identifiers bound in the module: its imports, its \<open>const\<close> declarations and its one
  function declaration, and the globals of Node that it uses. An ES module is strict code,
  so evaluating any other identifier throws a \<open>ReferenceError\<close>.
\<close>

definition module_scope :: "string list" where
  "module_scope =
     [''express'', ''fetch'', ''cors'', ''pino'', ''logger'', ''app'', ''port'',
      ''environment'', ''client_id'', ''client_secret'', ''endpoint_url'',
      ''get_access_token'',
      ''process'', ''console'', ''Buffer'', ''JSON'', ''Error'']"

definition resolve :: "string \<Rightarrow> js_error + unit" where
  "resolve x =
     (if x \<in> set module_scope then Inr ()
      else Inl (JsError ReferenceError (x @ '' is not defined'')))"

subsection \<open>Strings built by the module\<close>

text \<open>Decimal digits of a number, as \<open>${response.status}\<close> prints a status code.\<close>

fun show_nat :: "nat \<Rightarrow> string" where
  "show_nat n =
     (if n < 10 then [char_of (48 + n)]
      else show_nat (n div 10) @ [char_of (48 + n mod 10)])"

declare show_nat.simps [simp del]

text \<open>\<open>Buffer.from(s).toString('base64')\<close>: the standard alphabet, padded with \<open>=\<close>.\<close>

definition b64_alphabet :: string where
  "b64_alphabet = ''ABCDEFGHIJKLMNOPQRSTUVWXYZabcdefghijklmnopqrstuvwxyz0123456789+/''"

definition b64_digit :: "nat \<Rightarrow> char" where
  "b64_digit n = b64_alphabet ! (n mod 64)"

fun base64_bytes :: "nat list \<Rightarrow> string" where
  "base64_bytes [] = []"
| "base64_bytes [a] =
     [b64_digit (a div 4), b64_digit ((a mod 4) * 16), CHR ''='', CHR ''='']"
| "base64_bytes [a, b] =
     [b64_digit (a div 4), b64_digit ((a mod 4) * 16 + b div 16),
      b64_digit ((b mod 16) * 4), CHR ''='']"
| "base64_bytes (a # b # c # rest) =
     [b64_digit (a div 4), b64_digit ((a mod 4) * 16 + b div 16),
      b64_digit ((b mod 16) * 4 + c div 64), b64_digit (c mod 64)] @ base64_bytes rest"

definition base64 :: "string \<Rightarrow> string" where
  "base64 s = base64_bytes (map of_char s)"

text \<open>
  A string that the module builds by concatenation or in a template literal. The
  pieces that are string literals or configuration strings are written out; a run-time
  value that is spliced in (\<open>`Bearer ${access_token}`\<close>, \<open>'...' + req.body.order_id\<close>) is
  kept as the value, standing for its \<open>ToString\<close>.
\<close>

datatype piece = Lit string | Val jsval

type_synonym jstext = "piece list"

text \<open>
  The conversion of a spliced value to a string can throw. An object that has an own
  property \<open>toString\<close> (in parsed JSON never a function) has no callable \<open>toString\<close>, and
  the \<open>valueOf\<close> it has or inherits yields no primitive, so the conversion ends in a
  \<open>TypeError\<close>; every other object prints as \<open>[object Object]\<close>. An array is converted
  by \<open>join\<close>, which converts its elements. Every other value has a string.
\<close>

fun stringifiable :: "jsval \<Rightarrow> bool" where
  "stringifiable (JObj ps) = (map_of ps ''toString'' = None)"
| "stringifiable (JArr xs) = (\<forall>x \<in> set xs. stringifiable x)"
| "stringifiable v = True"

definition splice :: "jsval \<Rightarrow> js_error + piece" where
  "splice v =
     (if stringifiable v then Inr (Val v)
      else Inl (JsError TypeError ''Cannot convert object to primitive value''))"

subsection \<open>Configuration\<close>

text \<open>\<open>process.env\<close>: a variable is unset (\<open>undefined\<close>) or a string, possibly empty.\<close>

record process_env =
  PORT :: "string option"
  ENVIRONMENT :: "string option"
  PAYPAL_CLIENT_ID :: "string option"
  PAYPAL_SECRET_KEY :: "string option"

text \<open>\<open>x || d\<close> for a string or \<open>undefined\<close> \<open>x\<close>: the empty string is falsy as well.\<close>

definition or_default :: "string option \<Rightarrow> string \<Rightarrow> string" where
  "or_default x d = (case x of None \<Rightarrow> d | Some s \<Rightarrow> if s = [] then d else s)"

definition environment :: "process_env \<Rightarrow> string" where
  "environment env = or_default (ENVIRONMENT env) ''sandbox''"

definition client_id :: "process_env \<Rightarrow> string option" where
  "client_id env = PAYPAL_CLIENT_ID env"

definition client_secret :: "process_env \<Rightarrow> string option" where
  "client_secret env = PAYPAL_SECRET_KEY env"

definition endpoint_url :: "process_env \<Rightarrow> string" where
  "endpoint_url env =
     (if environment env = ''sandbox'' then ''https://api-m.sandbox.paypal.com''
      else ''https://api-m.paypal.com'')"

text \<open>A configuration value inside a template literal: \<open>undefined\<close> prints as such.\<close>

definition template_string :: "string option \<Rightarrow> string" where
  "template_string x = (case x of None \<Rightarrow> ''undefined'' | Some s \<Rightarrow> s)"

subsection \<open>Calls to the processor\<close>

datatype req_body = NoBody | TextBody string | JsonBody jsval

record http_request =
  req_url :: jstext
  req_method :: string
  req_headers :: "(string \<times> jstext) list"
  req_body :: req_body

text \<open>
  What \<open>await fetch(...)\<close> yields: a rejection (the processor was not reached), or a
  response with its status code and with what \<open>response.json()\<close> yields, which is a
  rejection when the body is not JSON.
\<close>

datatype fetch_result = Rejected js_error | Response nat "js_error + jsval"

definition response_ok :: "nat \<Rightarrow> bool" where
  "response_ok st = (200 \<le> st \<and> st \<le> 299)"

datatype log_entry = LoggerInfo jsval | LoggerError js_error | ConsoleError string js_error

text \<open>
  The effects of a handler: the state \<open>world\<close> of the processor, the calls made to it in
  order, the log lines written and the receipts dispatched. The module itself has no
  mutable variable: everything at its top level is a \<open>const\<close>.
\<close>

record 'w io =
  world :: 'w
  calls :: "http_request list"
  logs :: "log_entry list"
  receipts :: "jsval list"

type_synonym 'w upstream = "'w \<Rightarrow> http_request \<Rightarrow> fetch_result \<times> 'w"

definition fetch :: "'w upstream \<Rightarrow> http_request \<Rightarrow> 'w io \<Rightarrow> fetch_result \<times> 'w io" where
  "fetch up rq s =
     (case up (world s) rq of
        (r, w) \<Rightarrow> (r, s\<lparr>world := w, calls := calls s @ [rq]\<rparr>))"

subsection \<open>\<open>get_access_token\<close>\<close>

definition token_request :: "process_env \<Rightarrow> http_request" where
  "token_request env =
     (let auth = template_string (client_id env) @ '':'' @ template_string (client_secret env);
          data = ''grant_type=client_credentials''
      in \<lparr>req_url = [Lit (endpoint_url env @ ''/v1/oauth2/token'')],
          req_method = ''POST'',
          req_headers =
            [(''Content-Type'', [Lit ''application/x-www-form-urlencoded'']),
             (''Authorization'', [Lit (''Basic '' @ base64 auth)])],
          req_body = TextBody data\<rparr>)"

definition get_access_token ::
    "process_env \<Rightarrow> 'w upstream \<Rightarrow> 'w io \<Rightarrow> (js_error + jsval) \<times> 'w io" where
  "get_access_token env up s =
     (case fetch up (token_request env) s of
        (Rejected e, s1) \<Rightarrow> (Inl e, s1)
      | (Response st js, s1) \<Rightarrow>
          if response_ok st then
            (case js of
               Inl e \<Rightarrow> (Inl e, s1)
             | Inr json \<Rightarrow> (get_prop json ''access_token'', s1))
          else
            (Inl (JsError Error (''Failed to retrieve access token. Status: '' @ show_nat st)),
             s1))"

subsection \<open>Responses to the client\<close>

text \<open>
  What the client receives: the status, which is 200 unless \<open>res.status\<close> sets it, and the
  body. \<open>Text t\<close> is the string \<open>t\<close> sent as it is, \<open>Json v\<close> is the JSON text of \<open>v\<close>
  (what \<open>res.json(v)\<close> sends), and \<open>ErrorObject e\<close> is what \<open>res.send(err)\<close> makes of an
  \<open>Error\<close> object.
\<close>

datatype response_body = Text string | Json jsval | ErrorObject js_error

record http_response =
  status :: nat
  res_body :: response_body

text \<open>
  \<open>res.send(v)\<close> on a value of the processor, with no status set before. Express sends a
  string as the text of the body, nothing for \<open>undefined\<close> and \<open>null\<close>, and hands a
  boolean, an array or an object to \<open>res.json\<close>. What it does with a number depends on its
  version, which the source does not fix: Express 4 takes the number as the status code
  (\<open>res.send(404)\<close> answers 404 Not Found) and Node throws a \<open>RangeError\<close>, inside the
  handler's \<open>try\<close> block, for a code outside 100..999; later versions send the number as
  JSON. The treatment of a number is therefore a parameter: the response, or the error
  thrown.
\<close>

type_synonym express = "jsnum \<Rightarrow> js_error + http_response"

definition res_send :: "express \<Rightarrow> jsval \<Rightarrow> js_error + http_response" where
  "res_send ex v =
     (case v of
        JNum n \<Rightarrow> ex n
      | JStr t \<Rightarrow> Inr \<lparr>status = 200, res_body = Text t\<rparr>
      | JUndefined \<Rightarrow> Inr \<lparr>status = 200, res_body = Text []\<rparr>
      | JNull \<Rightarrow> Inr \<lparr>status = 200, res_body = Text []\<rparr>
      | _ \<Rightarrow> Inr \<lparr>status = 200, res_body = Json v\<rparr>)"

subsection \<open>POST /initiate-payment\<close>

text \<open>
  The destructuring of \<open>req.body\<close> throws when the body is \<open>undefined\<close> or \<open>null\<close>; the
  four card fields are bound and never read again. The options of \<open>fetch\<close> are built
  after the payload: the template literal of the \<open>Authorization\<close> header throws when the
  token has no string, and then no call is made.
\<close>

definition destructure_payment :: "jsval \<Rightarrow> js_error + jsval \<times> jsval" where
  "destructure_payment b =
     (case b of
        JUndefined \<Rightarrow> Inl (JsError TypeError
          (''Cannot destructure property '' @ [CHR 0x27] @ ''cardNumber'' @ [CHR 0x27]
             @ '' of '' @ [CHR 0x27] @ ''req.body'' @ [CHR 0x27] @ '' as it is undefined.''))
      | JNull \<Rightarrow> Inl (JsError TypeError
          (''Cannot destructure property '' @ [CHR 0x27] @ ''cardNumber'' @ [CHR 0x27]
             @ '' of '' @ [CHR 0x27] @ ''req.body'' @ [CHR 0x27] @ '' as it is null.''))
      | _ \<Rightarrow>
          (case get_prop b ''currency'' of
             Inl e \<Rightarrow> Inl e
           | Inr currency \<Rightarrow>
               (case get_prop b ''amount'' of
                  Inl e \<Rightarrow> Inl e
                | Inr amount \<Rightarrow> Inr (currency, amount))))"

definition order_data_json :: "jsval \<Rightarrow> jsval \<Rightarrow> jsval" where
  "order_data_json currency amount =
     JObj [(''intent'', JStr ''CAPTURE''),
           (''purchase_units'',
              JArr [JObj [(''amount'',
                 JObj [(''currency_code'', currency), (''value'', amount)])]])]"

definition create_order_request ::
    "process_env \<Rightarrow> jsval \<Rightarrow> jsval \<Rightarrow> jsval \<Rightarrow> js_error + http_request" where
  "create_order_request env access_token currency amount =
     (let data = JsonBody (JSON_value (order_data_json currency amount))
      in case splice access_token of
           Inl e \<Rightarrow> Inl e
         | Inr bearer \<Rightarrow>
             Inr \<lparr>req_url = [Lit (endpoint_url env @ ''/v2/checkout/orders'')],
                  req_method = ''POST'',
                  req_headers =
                    [(''Content-Type'', [Lit ''application/json'']),
                     (''Authorization'', [Lit ''Bearer '', bearer])],
                  req_body = data\<rparr>)"

definition initiate_payment_try ::
    "express \<Rightarrow> process_env \<Rightarrow> 'w upstream \<Rightarrow> jsval \<Rightarrow> 'w io
       \<Rightarrow> (js_error + http_response) \<times> 'w io" where
  "initiate_payment_try ex env up b s =
     (case get_access_token env up s of
        (Inl e, s1) \<Rightarrow> (Inl e, s1)
      | (Inr access_token, s1) \<Rightarrow>
          (case destructure_payment b of
             Inl e \<Rightarrow> (Inl e, s1)
           | Inr (currency, amount) \<Rightarrow>
               (case create_order_request env access_token currency amount of
                  Inl e \<Rightarrow> (Inl e, s1)
                | Inr rq \<Rightarrow>
                    (case fetch up rq s1 of
                       (Rejected e, s2) \<Rightarrow> (Inl e, s2)
                     | (Response st js, s2) \<Rightarrow>
                         if response_ok st then
                           (case js of
                              Inl e \<Rightarrow> (Inl e, s2)
                            | Inr json \<Rightarrow>
                                (case res_send ex json of
                                   Inl e \<Rightarrow> (Inl e, s2)
                                 | Inr r \<Rightarrow> (Inr r, s2)))
                         else
                           (Inl (JsError Error
                              (''Failed to create payment order. Status: '' @ show_nat st)),
                            s2)))))"

text \<open>The \<open>catch\<close> clause: \<open>logger.error(err); res.status(500).send(err)\<close>.\<close>

definition initiate_payment ::
    "express \<Rightarrow> process_env \<Rightarrow> 'w upstream \<Rightarrow> jsval \<Rightarrow> 'w io \<Rightarrow> http_response \<times> 'w io" where
  "initiate_payment ex env up b s =
     (case initiate_payment_try ex env up b s of
        (Inr r, s1) \<Rightarrow> (r, s1)
      | (Inl err, s1) \<Rightarrow>
          (\<lparr>status = 500, res_body = ErrorObject err\<rparr>,
           s1\<lparr>logs := logs s1 @ [LoggerError err]\<rparr>))"

subsection \<open>POST /complete_order\<close>

text \<open>
  The URL is built from \<open>req.body.order_id\<close> and \<open>req.body.intent\<close>, each read and then
  concatenated, from left to right; the \<open>Authorization\<close> header is built after the URL; the
  request has no body. After a successful response the handler evaluates
  \<open>loggert.info(json)\<close>, then \<open>send_email_receipt(...)\<close> if \<open>json.id\<close> is truthy; both
  identifiers are looked up in the module scope.
\<close>

definition order_action_request :: "process_env \<Rightarrow> jsval \<Rightarrow> jsval \<Rightarrow> js_error + http_request" where
  "order_action_request env access_token b =
     (case get_prop b ''order_id'' of
        Inl e \<Rightarrow> Inl e
      | Inr order_id \<Rightarrow>
          (case splice order_id of
             Inl e \<Rightarrow> Inl e
           | Inr order_id_text \<Rightarrow>
               (case get_prop b ''intent'' of
                  Inl e \<Rightarrow> Inl e
                | Inr intent \<Rightarrow>
                    (case splice intent of
                       Inl e \<Rightarrow> Inl e
                     | Inr intent_text \<Rightarrow>
                         (case splice access_token of
                            Inl e \<Rightarrow> Inl e
                          | Inr bearer \<Rightarrow>
                              Inr \<lparr>req_url =
                                     [Lit (endpoint_url env @ ''/v2/checkout/orders/''),
                                      order_id_text, Lit ''/'', intent_text],
                                   req_method = ''POST'',
                                   req_headers =
                                     [(''Content-Type'', [Lit ''application/json'']),
                                      (''Authorization'', [Lit ''Bearer '', bearer])],
                                   req_body = NoBody\<rparr>)))))"

definition send_receipt_if_id ::
    "jsval \<Rightarrow> jsval \<Rightarrow> 'w io \<Rightarrow> (js_error + unit) \<times> 'w io" where
  "send_receipt_if_id json b s =
     (case get_prop json ''id'' of
        Inl e \<Rightarrow> (Inl e, s)
      | Inr ident \<Rightarrow>
          if truthy ident then
            (case resolve ''send_email_receipt'' of
               Inl e \<Rightarrow> (Inl e, s)
             | Inr _ \<Rightarrow>
                 (case get_prop b ''email'' of
                    Inl e \<Rightarrow> (Inl e, s)
                  | Inr email \<Rightarrow>
                      (Inr (),
                       s\<lparr>receipts := receipts s @ [JObj [(''id'', ident), (''email'', email)]]\<rparr>)))
          else (Inr (), s))"

definition complete_order_try ::
    "process_env \<Rightarrow> 'w upstream \<Rightarrow> jsval \<Rightarrow> 'w io \<Rightarrow> (js_error + http_response) \<times> 'w io" where
  "complete_order_try env up b s =
     (case get_access_token env up s of
        (Inl e, s1) \<Rightarrow> (Inl e, s1)
      | (Inr access_token, s1) \<Rightarrow>
          (case order_action_request env access_token b of
             Inl e \<Rightarrow> (Inl e, s1)
           | Inr rq \<Rightarrow>
               (case fetch up rq s1 of
                  (Rejected e, s2) \<Rightarrow> (Inl e, s2)
                | (Response st js, s2) \<Rightarrow>
                    if response_ok st then
                      (case js of
                         Inl e \<Rightarrow> (Inl e, s2)
                       | Inr json \<Rightarrow>
                           (case resolve ''loggert'' of
                              Inl e \<Rightarrow> (Inl e, s2)
                            | Inr _ \<Rightarrow>
                                (case send_receipt_if_id json b
                                        (s2\<lparr>logs := logs s2 @ [LoggerInfo json]\<rparr>) of
                                   (Inl e, s3) \<Rightarrow> (Inl e, s3)
                                 | (Inr _, s3) \<Rightarrow>
                                     (Inr \<lparr>status = 200, res_body = Json json\<rparr>, s3))))
                    else
                      (Inl (JsError Error
                         (''Failed to complete order. Status: '' @ show_nat st)), s2))))"

text \<open>The \<open>catch\<close> clause: \<open>logger.error(err); res.status(500).json({ error: err.message })\<close>.\<close>

definition complete_order ::
    "process_env \<Rightarrow> 'w upstream \<Rightarrow> jsval \<Rightarrow> 'w io \<Rightarrow> http_response \<times> 'w io" where
  "complete_order env up b s =
     (case complete_order_try env up b s of
        (Inr r, s1) \<Rightarrow> (r, s1)
      | (Inl err, s1) \<Rightarrow>
          (\<lparr>status = 500, res_body = Json (JObj [(''error'', JStr (message err))])\<rparr>,
           s1\<lparr>logs := logs s1 @ [LoggerError err]\<rparr>))"

subsection \<open>POST /get_client_token\<close>

definition client_token_payload :: "jsval \<Rightarrow> js_error + req_body" where
  "client_token_payload b =
     (case get_prop b ''customer_id'' of
        Inl e \<Rightarrow> Inl e
      | Inr customer_id \<Rightarrow>
          if truthy customer_id
          then Inr (JsonBody (JSON_value (JObj [(''customer_id'', customer_id)])))
          else Inr NoBody)"

definition client_token_request :: "process_env \<Rightarrow> jsval \<Rightarrow> jsval \<Rightarrow> js_error + http_request" where
  "client_token_request env access_token b =
     (case client_token_payload b of
        Inl e \<Rightarrow> Inl e
      | Inr payload \<Rightarrow>
          (case splice access_token of
             Inl e \<Rightarrow> Inl e
           | Inr bearer \<Rightarrow>
               Inr \<lparr>req_url = [Lit (endpoint_url env @ ''/v1/identity/generate-token'')],
                    req_method = ''post'',
                    req_headers =
                      [(''Authorization'', [Lit ''Bearer '', bearer]),
                       (''Content-Type'', [Lit ''application/json''])],
                    req_body = payload\<rparr>))"

definition get_client_token_try ::
    "express \<Rightarrow> process_env \<Rightarrow> 'w upstream \<Rightarrow> jsval \<Rightarrow> 'w io
       \<Rightarrow> (js_error + http_response) \<times> 'w io" where
  "get_client_token_try ex env up b s =
     (case get_access_token env up s of
        (Inl e, s1) \<Rightarrow> (Inl e, s1)
      | (Inr access_token, s1) \<Rightarrow>
          (case client_token_request env access_token b of
             Inl e \<Rightarrow> (Inl e, s1)
           | Inr rq \<Rightarrow>
               (case fetch up rq s1 of
                  (Rejected e, s2) \<Rightarrow> (Inl e, s2)
                | (Response st js, s2) \<Rightarrow>
                    if response_ok st then
                      (case js of
                         Inl e \<Rightarrow> (Inl e, s2)
                       | Inr data \<Rightarrow>
                           (case get_prop data ''client_token'' of
                              Inl e \<Rightarrow> (Inl e, s2)
                            | Inr client_token \<Rightarrow>
                                (case res_send ex client_token of
                                   Inl e \<Rightarrow> (Inl e, s2)
                                 | Inr r \<Rightarrow> (Inr r, s2))))
                    else
                      (Inl (JsError Error
                         (''Failed to retrieve client token. Status: '' @ show_nat st)), s2))))"

text \<open>
  The \<open>catch\<close> clause: \<open>console.error("Error:", error)\<close>, then \<open>res.status(500).send\<close> of a
  string.
\<close>

definition get_client_token ::
    "express \<Rightarrow> process_env \<Rightarrow> 'w upstream \<Rightarrow> jsval \<Rightarrow> 'w io \<Rightarrow> http_response \<times> 'w io" where
  "get_client_token ex env up b s =
     (case get_client_token_try ex env up b s of
        (Inr r, s1) \<Rightarrow> (r, s1)
      | (Inl err, s1) \<Rightarrow>
          (\<lparr>status = 500,
            res_body = Text ''An error occurred while processing the request.''\<rparr>,
           s1\<lparr>logs := logs s1 @ [ConsoleError ''Error:'' err]\<rparr>))"

subsection \<open>The router\<close>

datatype route = InitiatePayment | CompleteOrder | GetClientToken

fun route_path :: "route \<Rightarrow> string" where
  "route_path InitiatePayment = ''/initiate-payment''"
| "route_path CompleteOrder = ''/complete_order''"
| "route_path GetClientToken = ''/get_client_token''"

fun app_post ::
    "route \<Rightarrow> express \<Rightarrow> process_env \<Rightarrow> 'w upstream \<Rightarrow> jsval \<Rightarrow> 'w io
       \<Rightarrow> http_response \<times> 'w io" where
  "app_post InitiatePayment ex = initiate_payment ex"
| "app_post CompleteOrder ex = complete_order"
| "app_post GetClientToken ex = get_client_token ex"

text \<open>The call that each handler makes after the token is obtained, from its arguments.\<close>

fun api_request :: "route \<Rightarrow> process_env \<Rightarrow> jsval \<Rightarrow> jsval \<Rightarrow> js_error + http_request" where
  "api_request InitiatePayment env access_token b =
     (case destructure_payment b of
        Inl e \<Rightarrow> Inl e
      | Inr (currency, amount) \<Rightarrow> create_order_request env access_token currency amount)"
| "api_request CompleteOrder env access_token b = order_action_request env access_token b"
| "api_request GetClientToken env access_token b = client_token_request env access_token b"

subsection \<open>A scripted processor\<close>

text \<open>
  A processor that answers the calls it receives with a fixed list of results, in order;
  the state of the world is what is left of the list. It fails every call after the last.
\<close>

definition scripted :: "fetch_result list upstream" where
  "scripted w rq =
     (case w of
        [] \<Rightarrow> (Rejected (JsError FetchError ''request failed''), [])
      | r # rs \<Rightarrow> (r, rs))"

definition start :: "'w \<Rightarrow> 'w io" where
  "start w = \<lparr>world = w, calls = [], logs = [], receipts = []\<rparr>"

text \<open>The effects of a run that started in the fresh state, appended to an earlier state.\<close>

definition resume :: "'w io \<Rightarrow> 'w io \<Rightarrow> 'w io" where
  "resume s t =
     s\<lparr>world := world t, calls := calls s @ calls t, logs := logs s @ logs t,
       receipts := receipts s @ receipts t\<rparr>"

text \<open>An Express that hands a number to \<open>res.json\<close>, as it does a boolean or an object.\<close>

definition send_number_as_json :: express where
  "send_number_as_json n = Inr \<lparr>status = 200, res_body = Json (JNum n)\<rparr>"

definition sample_env :: process_env where
  "sample_env =
     \<lparr>PORT = None, ENVIRONMENT = None,
      PAYPAL_CLIENT_ID = Some ''id'', PAYPAL_SECRET_KEY = Some ''secret''\<rparr>"

definition token_ok :: "string \<Rightarrow> fetch_result" where
  "token_ok t = Response 200 (Inr (JObj [(''access_token'', JStr t), (''token_type'', JStr ''Bearer'')]))"

definition empty_environment :: process_env where
  "empty_environment =
     \<lparr>PORT = None, ENVIRONMENT = Some [],
      PAYPAL_CLIENT_ID = Some ''id'', PAYPAL_SECRET_KEY = Some ''secret''\<rparr>"

text \<open>Request bodies and processor answers used to run the handlers.\<close>

definition capture_body :: jsval where
  "capture_body =
     JObj [(''order_id'', JStr ''5O190127TN364715T''), (''intent'', JStr ''capture'')]"

definition capture_body_email :: jsval where
  "capture_body_email =
     JObj [(''order_id'', JStr ''5O190127TN364715T''), (''intent'', JStr ''capture''),
           (''email'', JStr ''buyer@example.com'')]"

definition captured_order :: jsval where
  "captured_order =
     JObj [(''id'', JStr ''5O190127TN364715T''), (''status'', JStr ''COMPLETED'')]"

definition created_order :: jsval where
  "created_order =
     JObj [(''id'', JStr ''5O190127TN364715T''), (''status'', JStr ''CREATED'')]"

definition payment_body :: "string \<Rightarrow> string \<Rightarrow> jsval \<Rightarrow> jsval \<Rightarrow> jsval" where
  "payment_body cardNumber cvv currency amount =
     JObj [(''cardNumber'', JStr cardNumber), (''cardHolder'', JStr ''A Buyer''),
           (''expiry'', JStr ''12/30''), (''cvv'', JStr cvv),
           (''currency'', currency), (''amount'', amount)]"

text \<open>The order-creation call for 10.00 USD with the token \<open>A21AA\<close>.\<close>

definition sample_order_request :: http_request where
  "sample_order_request =
     \<lparr>req_url = [Lit ''https://api-m.sandbox.paypal.com/v2/checkout/orders''],
      req_method = ''POST'',
      req_headers =
        [(''Content-Type'', [Lit ''application/json'']),
         (''Authorization'', [Lit ''Bearer '', Val (JStr ''A21AA'')])],
      req_body =
        JsonBody (JObj [(''intent'', JStr ''CAPTURE''),
          (''purchase_units'',
             JArr [JObj [(''amount'',
                JObj [(''currency_code'', JStr ''USD''), (''value'', JStr ''10.00'')])]])])\<rparr>"

section \<open>Properties\<close>

subsection \<open>Token acquisition\<close>

lemma fetch_eq:
  "fetch up rq s =
     (fst (up (world s) rq), s\<lparr>world := snd (up (world s) rq), calls := calls s @ [rq]\<rparr>)"
  by (simp add: fetch_def split: prod.splits)

lemma get_access_token_state:
  "get_access_token env up s = (x, s1) \<Longrightarrow>
     s1 = s\<lparr>world := snd (up (world s) (token_request env)),
            calls := calls s @ [token_request env]\<rparr>"
  by (auto simp: get_access_token_def fetch_eq split: fetch_result.splits sum.splits if_splits)

lemma get_access_token_rejected:
  "up (world s) (token_request env) = (Response st js, w) \<Longrightarrow> \<not> response_ok st \<Longrightarrow>
     get_access_token env up s =
       (Inl (JsError Error (''Failed to retrieve access token. Status: '' @ show_nat st)),
        s\<lparr>world := w, calls := calls s @ [token_request env]\<rparr>)"
  by (simp add: get_access_token_def fetch_eq)

lemma get_access_token_granted:
  "up (world s) (token_request env) = (Response st (Inr json), w) \<Longrightarrow> response_ok st \<Longrightarrow>
     get_access_token env up s =
       (get_prop json ''access_token'', s\<lparr>world := w, calls := calls s @ [token_request env]\<rparr>)"
  by (simp add: get_access_token_def fetch_eq)

text \<open>
  Claim C5. \<open>get_access_token\<close> sends one POST to the token endpoint of the processor,
  with the header \<open>Authorization: Basic base64(client_id:client_secret)\<close> and the body
  \<open>grant_type=client_credentials\<close>. When the processor answers 2xx with an object whose
  \<open>access_token\<close> is the string \<open>t\<close>, it returns \<open>t\<close>; when the processor answers with
  any other status it throws \<open>Failed to retrieve access token. Status: <status>\<close>. In both
  cases the trace is extended by exactly the one token request: nothing is retried.
\<close>

theorem get_access_token_contract:
  fixes up :: "'w upstream"
  shows
  "req_url (token_request env) = [Lit (endpoint_url env @ ''/v1/oauth2/token'')]
   \<and> req_method (token_request env) = ''POST''
   \<and> map_of (req_headers (token_request env)) ''Authorization'' =
       Some [Lit (''Basic '' @ base64 (template_string (client_id env) @ '':''
                                        @ template_string (client_secret env)))]
   \<and> req_body (token_request env) = TextBody ''grant_type=client_credentials''
   \<and> (\<forall>st ps t w.
         up (world s) (token_request env) = (Response st (Inr (JObj ps)), w)
         \<longrightarrow> response_ok st \<longrightarrow> map_of ps ''access_token'' = Some (JStr t)
         \<longrightarrow> get_access_token env up s =
               (Inr (JStr t), s\<lparr>world := w, calls := calls s @ [token_request env]\<rparr>))
   \<and> (\<forall>st js w.
         up (world s) (token_request env) = (Response st js, w) \<longrightarrow> \<not> response_ok st
         \<longrightarrow> get_access_token env up s =
               (Inl (JsError Error
                  (''Failed to retrieve access token. Status: '' @ show_nat st)),
                s\<lparr>world := w, calls := calls s @ [token_request env]\<rparr>))"
proof -
  have hdr: "req_url (token_request env) = [Lit (endpoint_url env @ ''/v1/oauth2/token'')]
    \<and> req_method (token_request env) = ''POST''
    \<and> map_of (req_headers (token_request env)) ''Authorization'' =
       Some [Lit (''Basic '' @ base64 (template_string (client_id env) @ '':''
                                        @ template_string (client_secret env)))]
    \<and> req_body (token_request env) = TextBody ''grant_type=client_credentials''"
    by (simp add: token_request_def Let_def)
  have ok: "get_access_token env up s =
               (Inr (JStr t), s\<lparr>world := w, calls := calls s @ [token_request env]\<rparr>)"
    if "up (world s) (token_request env) = (Response st (Inr (JObj ps)), w)"
       "response_ok st" "map_of ps ''access_token'' = Some (JStr t)" for st ps t w
    using get_access_token_granted [of up s env st "JObj ps" w] that by (simp add: get_prop_def)
  show ?thesis using hdr ok get_access_token_rejected [of up s env] by blast
qed

text \<open>The token request of the sample configuration, with client id \<open>id\<close> and secret \<open>secret\<close>.\<close>

lemma sample_token_request:
  "token_request sample_env =
     \<lparr>req_url = [Lit ''https://api-m.sandbox.paypal.com/v1/oauth2/token''],
      req_method = ''POST'',
      req_headers =
        [(''Content-Type'', [Lit ''application/x-www-form-urlencoded'']),
         (''Authorization'', [Lit ''Basic aWQ6c2VjcmV0''])],
      req_body = TextBody ''grant_type=client_credentials''\<rparr>"
  by code_simp

theorem get_access_token_contract_witness:
  "map_of (req_headers (token_request sample_env)) ''Authorization'' =
     Some [Lit ''Basic aWQ6c2VjcmV0'']
   \<and> response_ok 200
   \<and> get_access_token sample_env scripted (start [token_ok ''A21AA'']) =
       (Inr (JStr ''A21AA''),
        \<lparr>world = [], calls = [token_request sample_env], logs = [], receipts = []\<rparr>)
   \<and> \<not> response_ok 401
   \<and> get_access_token sample_env scripted (start [Response 401 (Inr JNull)]) =
       (Inl (JsError Error ''Failed to retrieve access token. Status: 401''),
        \<lparr>world = [], calls = [token_request sample_env], logs = [], receipts = []\<rparr>)"
proof -
  have b64: "base64 (template_string (client_id sample_env) @ '':''
                      @ template_string (client_secret sample_env)) = ''aWQ6c2VjcmV0''"
    by code_simp
  have st: "show_nat 401 = ''401''" by code_simp
  note c1 = get_access_token_contract [of sample_env scripted "start [token_ok ''A21AA'']"]
  note c2 = get_access_token_contract [of sample_env scripted "start [Response 401 (Inr JNull)]"]
  have a: "map_of (req_headers (token_request sample_env)) ''Authorization'' =
     Some [Lit ''Basic aWQ6c2VjcmV0'']"
    using c1 b64 by simp
  have b: "get_access_token sample_env scripted (start [token_ok ''A21AA'']) =
       (Inr (JStr ''A21AA''),
        \<lparr>world = [], calls = [token_request sample_env], logs = [], receipts = []\<rparr>)"
    using c1 by (simp add: scripted_def start_def token_ok_def response_ok_def)
  have c: "get_access_token sample_env scripted (start [Response 401 (Inr JNull)]) =
       (Inl (JsError Error ''Failed to retrieve access token. Status: 401''),
        \<lparr>world = [], calls = [token_request sample_env], logs = [], receipts = []\<rparr>)"
    using c2 st by (simp add: scripted_def start_def response_ok_def)
  show ?thesis using a b c by (simp add: response_ok_def)
qed

subsection \<open>Choice of the processor's base URL\<close>

text \<open>
  Claim C10 says that the sandbox URL is used exactly when \<open>ENVIRONMENT\<close> is unset or equal
  to \<open>sandbox\<close>. The default is taken with \<open>||\<close>, which also replaces the empty string: with
  \<open>ENVIRONMENT\<close> set to the empty string the variable is neither unset nor \<open>sandbox\<close>, and
  the sandbox URL is used.
\<close>

theorem endpoint_url_empty_environment:
  "ENVIRONMENT empty_environment \<noteq> None
   \<and> ENVIRONMENT empty_environment \<noteq> Some ''sandbox''
   \<and> endpoint_url empty_environment = ''https://api-m.sandbox.paypal.com''"
  by (simp add: empty_environment_def endpoint_url_def environment_def or_default_def)

text \<open>
  Claim C10, amended. The sandbox URL \<open>https://api-m.sandbox.paypal.com\<close> is used if and only
  if \<open>ENVIRONMENT\<close> is unset, the empty string, or exactly \<open>sandbox\<close>; every other value,
  misspellings of \<open>sandbox\<close> and of \<open>live\<close> included, selects the live URL
  \<open>https://api-m.paypal.com\<close>.
\<close>

theorem endpoint_url_selection:
  "endpoint_url env =
     (if ENVIRONMENT env = None \<or> ENVIRONMENT env = Some [] \<or> ENVIRONMENT env = Some ''sandbox''
      then ''https://api-m.sandbox.paypal.com'' else ''https://api-m.paypal.com'')"
  by (auto simp: endpoint_url_def environment_def or_default_def split: option.splits)

theorem endpoint_url_selection_witness:
  "endpoint_url sample_env = ''https://api-m.sandbox.paypal.com''
   \<and> endpoint_url (sample_env\<lparr>ENVIRONMENT := Some ''sandbox''\<rparr>) = ''https://api-m.sandbox.paypal.com''
   \<and> endpoint_url (sample_env\<lparr>ENVIRONMENT := Some ''Sandbox''\<rparr>) = ''https://api-m.paypal.com''
   \<and> endpoint_url (sample_env\<lparr>ENVIRONMENT := Some ''live''\<rparr>) = ''https://api-m.paypal.com''"
  using endpoint_url_selection [of sample_env]
        endpoint_url_selection [of "sample_env\<lparr>ENVIRONMENT := Some ''sandbox''\<rparr>"]
        endpoint_url_selection [of "sample_env\<lparr>ENVIRONMENT := Some ''Sandbox''\<rparr>"]
        endpoint_url_selection [of "sample_env\<lparr>ENVIRONMENT := Some ''live''\<rparr>"]
  by (simp add: sample_env_def)

subsection \<open>POST /complete_order after a successful order action\<close>

lemma sample_order_action_request:
  "order_action_request sample_env (JStr ''A21AA'') capture_body =
     Inr \<lparr>req_url = [Lit ''https://api-m.sandbox.paypal.com/v2/checkout/orders/'',
                     Val (JStr ''5O190127TN364715T''), Lit ''/'', Val (JStr ''capture'')],
          req_method = ''POST'',
          req_headers = [(''Content-Type'', [Lit ''application/json'']),
                         (''Authorization'', [Lit ''Bearer '', Val (JStr ''A21AA'')])],
          req_body = NoBody\<rparr>"
  by code_simp

text \<open>
  Claim C1 says that \<open>/complete_order\<close> logs the processor's JSON and answers 200 with it
  when the order action succeeds. The handler evaluates \<open>loggert.info(json)\<close> first, and
  \<open>loggert\<close> is not bound in the module (the logger is \<open>logger\<close>): the \<open>ReferenceError\<close>
  is caught by the handler's own \<open>catch\<close>, which logs it and answers 500 with
  \<open>{error: "loggert is not defined"}\<close>. Here the token call answers 200 and the capture call
  answers 201 with the order.
\<close>

theorem complete_order_success_responds_500:
  "complete_order sample_env scripted capture_body
       (start [token_ok ''A21AA'', Response 201 (Inr captured_order)]) =
     (\<lparr>status = 500, res_body = Json (JObj [(''error'', JStr ''loggert is not defined'')])\<rparr>,
      \<lparr>world = [],
       calls = [token_request sample_env,
                \<lparr>req_url = [Lit ''https://api-m.sandbox.paypal.com/v2/checkout/orders/'',
                            Val (JStr ''5O190127TN364715T''), Lit ''/'', Val (JStr ''capture'')],
                 req_method = ''POST'',
                 req_headers = [(''Content-Type'', [Lit ''application/json'']),
                                (''Authorization'', [Lit ''Bearer '', Val (JStr ''A21AA'')])],
                 req_body = NoBody\<rparr>],
       logs = [LoggerError (JsError ReferenceError ''loggert is not defined'')],
       receipts = []\<rparr>)"
  by code_simp

text \<open>
  Claim C3 says that a receipt is dispatched exactly once when an email is supplied and the
  processor's response has an id. The call \<open>send_email_receipt(...)\<close> stands after
  \<open>loggert.info(json)\<close>, which throws, so it is never reached: with an email in the body
  and an id in the response, no receipt is dispatched.
\<close>

theorem complete_order_sends_no_receipt:
  "truthy (JStr ''buyer@example.com'')
   \<and> get_prop capture_body_email ''email'' = Inr (JStr ''buyer@example.com'')
   \<and> get_prop captured_order ''id'' = Inr (JStr ''5O190127TN364715T'')
   \<and> receipts (snd (complete_order sample_env scripted capture_body_email
         (start [token_ok ''A21AA'', Response 201 (Inr captured_order)]))) = []"
  by code_simp

text \<open>The same holds of every request: the handler never answers 200 and never dispatches.\<close>

lemma complete_order_status:
  "status (fst (complete_order env up b s)) = 500"
  by (auto simp: complete_order_def complete_order_try_def resolve_def module_scope_def
      split: prod.splits sum.splits fetch_result.splits if_splits)

lemma complete_order_receipts:
  "receipts (snd (complete_order env up b s)) = receipts s"
  by (auto simp: complete_order_def complete_order_try_def resolve_def module_scope_def
        fetch_eq dest!: get_access_token_state
      split: prod.splits sum.splits fetch_result.splits if_splits)

subsection \<open>Failures of the processor\<close>

lemma get_access_token_calls:
  "get_access_token env up s = (x, s1) \<Longrightarrow> calls s1 = calls s @ [token_request env]"
  by (drule get_access_token_state) simp

lemma token_failure_500:
  assumes "get_access_token env up s = (Inl e, s1)"
  shows "status (fst (app_post r ex env up b s)) = 500
         \<and> calls (snd (app_post r ex env up b s)) = calls s @ [token_request env]"
  using assms get_access_token_calls [OF assms]
  by (cases r)
     (simp_all add: initiate_payment_def initiate_payment_try_def complete_order_def
        complete_order_try_def get_client_token_def get_client_token_try_def)

lemma api_failure_500:
  assumes tok: "get_access_token env up s = (Inr tok, s1)"
    and rq: "api_request r env tok b = Inr rq"
    and up: "up (world s1) rq = (Response st js, w)"
    and st: "\<not> response_ok st"
  shows "status (fst (app_post r ex env up b s)) = 500
         \<and> calls (snd (app_post r ex env up b s)) = calls s @ [token_request env, rq]"
proof -
  have f: "fetch up rq s1 = (Response st js, s1\<lparr>world := w, calls := calls s1 @ [rq]\<rparr>)"
    using up by (simp add: fetch_eq)
  have c: "calls s1 = calls s @ [token_request env]"
    using tok by (rule get_access_token_calls)
  show ?thesis
  proof (cases r)
    case InitiatePayment
    then show ?thesis using tok rq f c st
      by (auto simp: initiate_payment_def initiate_payment_try_def split: sum.splits)
  next
    case CompleteOrder
    then show ?thesis using tok rq f c st
      by (simp add: complete_order_def complete_order_try_def)
  next
    case GetClientToken
    then show ?thesis using tok rq f c st
      by (simp add: get_client_token_def get_client_token_try_def)
  qed
qed

text \<open>
  Claim C4. For each of the three POST routes: when the processor answers the token request
  with a status outside 200..299, the handler answers 500 and the token request is the only
  call it has made; when the token is obtained and the processor answers the route's own
  call (order creation, order action, client-token generation) with a status outside
  200..299, the handler answers 500 and has made the token request and that call, each
  exactly once. Nothing is retried.
\<close>

theorem upstream_failure_responds_500:
  fixes up :: "'w upstream"
  shows
  "(\<forall>st js w.
      up (world s) (token_request env) = (Response st js, w) \<longrightarrow> \<not> response_ok st
      \<longrightarrow> status (fst (app_post r ex env up b s)) = 500
          \<and> calls (snd (app_post r ex env up b s)) = calls s @ [token_request env])
   \<and> (\<forall>tok s1 rq st js w.
      get_access_token env up s = (Inr tok, s1) \<longrightarrow> api_request r env tok b = Inr rq
      \<longrightarrow> up (world s1) rq = (Response st js, w) \<longrightarrow> \<not> response_ok st
      \<longrightarrow> status (fst (app_post r ex env up b s)) = 500
          \<and> calls (snd (app_post r ex env up b s)) = calls s @ [token_request env, rq])"
proof (intro conjI allI impI)
  fix st js w
  assume "up (world s) (token_request env) = (Response st js, w)" "\<not> response_ok st"
  then have t: "get_access_token env up s =
       (Inl (JsError Error (''Failed to retrieve access token. Status: '' @ show_nat st)),
        s\<lparr>world := w, calls := calls s @ [token_request env]\<rparr>)"
    by (rule get_access_token_rejected)
  from token_failure_500 [OF t]
  show "status (fst (app_post r ex env up b s)) = 500"
    and "calls (snd (app_post r ex env up b s)) = calls s @ [token_request env]"
    by simp_all
next
  fix tok s1 rq st js w
  assume a: "get_access_token env up s = (Inr tok, s1)" "api_request r env tok b = Inr rq"
    "up (world s1) rq = (Response st js, w)" "\<not> response_ok st"
  from api_failure_500 [of env up s tok s1 r b rq st js w] a
  show "status (fst (app_post r ex env up b s)) = 500"
    and "calls (snd (app_post r ex env up b s)) = calls s @ [token_request env, rq]"
    by simp_all
qed

theorem upstream_failure_responds_500_witness:
  "scripted (world (start [Response 401 (Inr JNull)])) (token_request sample_env) =
     (Response 401 (Inr JNull), [])
   \<and> \<not> response_ok 401
   \<and> status (fst (app_post CompleteOrder send_number_as_json sample_env scripted capture_body
                     (start [Response 401 (Inr JNull)]))) = 500
   \<and> calls (snd (app_post CompleteOrder send_number_as_json sample_env scripted capture_body
                     (start [Response 401 (Inr JNull)]))) = [token_request sample_env]
   \<and> get_access_token sample_env scripted
         (start [token_ok ''A21AA'', Response 422 (Inr JNull)]) =
       (Inr (JStr ''A21AA''),
        \<lparr>world = [Response 422 (Inr JNull)], calls = [token_request sample_env],
         logs = [], receipts = []\<rparr>)
   \<and> api_request InitiatePayment sample_env (JStr ''A21AA'')
         (payment_body ''4111111111111111'' ''123'' (JStr ''USD'') (JStr ''10.00'')) =
       Inr sample_order_request
   \<and> \<not> response_ok 422
   \<and> status (fst (app_post InitiatePayment send_number_as_json sample_env scripted
         (payment_body ''4111111111111111'' ''123'' (JStr ''USD'') (JStr ''10.00''))
         (start [token_ok ''A21AA'', Response 422 (Inr JNull)]))) = 500
   \<and> calls (snd (app_post InitiatePayment send_number_as_json sample_env scripted
         (payment_body ''4111111111111111'' ''123'' (JStr ''USD'') (JStr ''10.00''))
         (start [token_ok ''A21AA'', Response 422 (Inr JNull)]))) =
       [token_request sample_env, sample_order_request]"
proof -
  let ?s = "start [Response 401 (Inr JNull)]"
  let ?t = "start [token_ok ''A21AA'', Response 422 (Inr JNull)]"
  let ?b = "payment_body ''4111111111111111'' ''123'' (JStr ''USD'') (JStr ''10.00'')"
  have h1: "scripted (world ?s) (token_request sample_env) = (Response 401 (Inr JNull), [])"
    by (simp add: scripted_def start_def)
  have h2: "\<not> response_ok 401" and h2': "\<not> response_ok 422"
    by (simp_all add: response_ok_def)
  have h3: "get_access_token sample_env scripted ?t =
       (Inr (JStr ''A21AA''),
        \<lparr>world = [Response 422 (Inr JNull)], calls = [token_request sample_env],
         logs = [], receipts = []\<rparr>)"
    by code_simp
  have h4: "api_request InitiatePayment sample_env (JStr ''A21AA'') ?b = Inr sample_order_request"
    by code_simp
  have h5: "scripted (world \<lparr>world = [Response 422 (Inr JNull)],
                calls = [token_request sample_env], logs = [], receipts = []\<rparr>)
              sample_order_request = (Response 422 (Inr JNull), [])"
    by (simp add: scripted_def)
  note a = upstream_failure_responds_500 [where up = scripted and s = ?s and env = sample_env
      and r = CompleteOrder and b = capture_body and ex = send_number_as_json,
      THEN conjunct1, rule_format, OF h1 h2]
  note b = upstream_failure_responds_500 [where up = scripted and s = ?t and env = sample_env
      and r = InitiatePayment and b = ?b and ex = send_number_as_json,
      THEN conjunct2, rule_format, OF h3 h4 h5 h2']
  show ?thesis using h1 h2 h2' h3 h4 a b by (simp add: start_def)
qed

subsection \<open>Every call to the API carries the token of its own request\<close>

lemma bearer_api:
  "api_request r env tok b = Inr rq \<Longrightarrow>
     map_of (req_headers rq) ''Authorization'' = Some [Lit ''Bearer '', Val tok]"
  by (cases r)
     (auto simp: create_order_request_def order_action_request_def client_token_request_def
             splice_def Let_def
           split: sum.splits if_splits)

lemma app_post_calls:
  fixes up :: "'w upstream"
  shows "calls (snd (app_post r ex env up b s)) = calls s @ [token_request env]
   \<or> (\<exists>tok s1 rq.
        get_access_token env up s = (Inr tok, s1) \<and> api_request r env tok b = Inr rq
        \<and> calls (snd (app_post r ex env up b s)) = calls s @ [token_request env, rq])"
proof (cases "get_access_token env up s")
  case (Pair x s1)
  note c = get_access_token_calls [OF Pair]
  show ?thesis
  proof (cases x)
    case (Inl e)
    with Pair token_failure_500 [of env up s e s1 r ex b] show ?thesis by simp
  next
    case (Inr tok)
    show ?thesis
    proof (cases "api_request r env tok b")
      case (Inl e)
      then have "calls (snd (app_post r ex env up b s)) = calls s @ [token_request env]"
        using Pair Inr c
        by (cases r)
           (auto simp: initiate_payment_def initiate_payment_try_def complete_order_def
              complete_order_try_def get_client_token_def get_client_token_try_def
              split: sum.splits)
      then show ?thesis by simp
    next
      case rq: (Inr rq)
      have "calls (snd (app_post r ex env up b s)) = calls s @ [token_request env, rq]"
      proof (cases r)
        case InitiatePayment
        then show ?thesis using Pair Inr rq c
          by (auto simp: initiate_payment_def initiate_payment_try_def fetch_eq
              split: sum.splits prod.splits fetch_result.splits)
      next
        case CompleteOrder
        then show ?thesis using Pair Inr rq c
          by (auto simp: complete_order_def complete_order_try_def fetch_eq
                resolve_def module_scope_def
              split: sum.splits prod.splits fetch_result.splits)
      next
        case GetClientToken
        then show ?thesis using Pair Inr rq c
          by (auto simp: get_client_token_def get_client_token_try_def fetch_eq
              split: sum.splits prod.splits fetch_result.splits)
      qed
      with Pair Inr rq show ?thesis by simp
    qed
  qed
qed

text \<open>
  A handler reads nothing of the state but the processor: running it in any state is running
  it in the fresh state of the same processor and appending its effects.
\<close>

lemma fetch_frame:
  "fetch up rq s = (case fetch up rq (start (world s)) of (x, t) \<Rightarrow> (x, resume s t))"
  by (simp add: fetch_eq resume_def start_def)

lemma get_access_token_frame:
  "get_access_token env up s =
     (case get_access_token env up (start (world s)) of (x, t) \<Rightarrow> (x, resume s t))"
  by (simp add: get_access_token_def fetch_eq resume_def start_def
      split: prod.splits fetch_result.splits sum.splits)

lemma app_post_frame:
  "app_post r ex env up b s =
     (case app_post r ex env up b (start (world s)) of (x, t) \<Rightarrow> (x, resume s t))"
proof (cases r)
  case InitiatePayment
  then show ?thesis
    by (simp add: initiate_payment_def initiate_payment_try_def get_access_token_def fetch_eq
          resume_def start_def
        split: prod.splits fetch_result.splits sum.splits)
next
  case CompleteOrder
  then show ?thesis
    by (simp add: complete_order_def complete_order_try_def get_access_token_def fetch_eq
          resume_def start_def resolve_def module_scope_def
        split: prod.splits fetch_result.splits sum.splits)
next
  case GetClientToken
  then show ?thesis
    by (simp add: get_client_token_def get_client_token_try_def get_access_token_def fetch_eq
          resume_def start_def 
        split: prod.splits fetch_result.splits sum.splits)
qed

text \<open>
  Claim C7. A handler invocation makes the token request and then at most one API call; that
  call's \<open>Authorization\<close> header is \<open>Bearer\<close> followed by the value that \<open>get_access_token\<close>
  returned in this same invocation. The invocation reads no earlier call, log line or
  receipt: its response and effects are those of a run from the fresh state, so no token of an
  earlier request can be carried. The module has no variable in which a token could be kept.
\<close>

theorem api_call_carries_fresh_token:
  fixes up :: "'w upstream"
  shows
  "(calls (snd (app_post r ex env up b s)) = calls s @ [token_request env]
    \<or> (\<exists>tok s1 rq.
          get_access_token env up s = (Inr tok, s1) \<and> api_request r env tok b = Inr rq
          \<and> map_of (req_headers rq) ''Authorization'' = Some [Lit ''Bearer '', Val tok]
          \<and> calls (snd (app_post r ex env up b s)) = calls s @ [token_request env, rq]))
   \<and> app_post r ex env up b s =
       (case app_post r ex env up b (start (world s)) of (x, t) \<Rightarrow> (x, resume s t))"
  using app_post_calls [of r ex env up b s] app_post_frame [of r ex env up b s] bearer_api
  by blast

theorem api_call_carries_fresh_token_witness:
  "get_access_token sample_env scripted
       (snd (app_post GetClientToken send_number_as_json sample_env scripted (JObj [])
          (start [token_ok ''T1'', Response 200 (Inr (JObj [(''client_token'', JStr ''eyJ'')])),
                  token_ok ''T2'', Response 201 (Inr created_order)]))) =
     (Inr (JStr ''T2''),
      \<lparr>world = [Response 201 (Inr created_order)],
       calls = [token_request sample_env,
                \<lparr>req_url = [Lit ''https://api-m.sandbox.paypal.com/v1/identity/generate-token''],
                 req_method = ''post'',
                 req_headers = [(''Authorization'', [Lit ''Bearer '', Val (JStr ''T1'')]),
                                (''Content-Type'', [Lit ''application/json''])],
                 req_body = NoBody\<rparr>,
                token_request sample_env],
       logs = [], receipts = []\<rparr>)
   \<and> (\<exists>rq.
        api_request InitiatePayment sample_env (JStr ''T2'')
          (payment_body ''4111111111111111'' ''123'' (JStr ''USD'') (JStr ''10.00'')) = Inr rq
        \<and> map_of (req_headers rq) ''Authorization'' = Some [Lit ''Bearer '', Val (JStr ''T2'')]
        \<and> calls (snd (app_post InitiatePayment send_number_as_json sample_env scripted
              (payment_body ''4111111111111111'' ''123'' (JStr ''USD'') (JStr ''10.00''))
              (snd (app_post GetClientToken send_number_as_json sample_env scripted (JObj [])
                 (start [token_ok ''T1'',
                         Response 200 (Inr (JObj [(''client_token'', JStr ''eyJ'')])),
                         token_ok ''T2'', Response 201 (Inr created_order)]))))) =
            [token_request sample_env,
             \<lparr>req_url = [Lit ''https://api-m.sandbox.paypal.com/v1/identity/generate-token''],
              req_method = ''post'',
              req_headers = [(''Authorization'', [Lit ''Bearer '', Val (JStr ''T1'')]),
                             (''Content-Type'', [Lit ''application/json''])],
              req_body = NoBody\<rparr>,
             token_request sample_env, rq])"
proof -
  let ?s1 = "snd (app_post GetClientToken send_number_as_json sample_env scripted (JObj [])
          (start [token_ok ''T1'', Response 200 (Inr (JObj [(''client_token'', JStr ''eyJ'')])),
                  token_ok ''T2'', Response 201 (Inr created_order)]))"
  let ?b = "payment_body ''4111111111111111'' ''123'' (JStr ''USD'') (JStr ''10.00'')"
  let ?ct = "\<lparr>req_url = [Lit ''https://api-m.sandbox.paypal.com/v1/identity/generate-token''],
                 req_method = ''post'',
                 req_headers = [(''Authorization'', [Lit ''Bearer '', Val (JStr ''T1'')]),
                                (''Content-Type'', [Lit ''application/json''])],
                 req_body = NoBody\<rparr>"
  have s1: "?s1 = \<lparr>world = [token_ok ''T2'', Response 201 (Inr created_order)],
                    calls = [token_request sample_env, ?ct], logs = [], receipts = []\<rparr>"
    by code_simp
  have g: "get_access_token sample_env scripted ?s1 =
     (Inr (JStr ''T2''),
      \<lparr>world = [Response 201 (Inr created_order)],
       calls = [token_request sample_env, ?ct, token_request sample_env],
       logs = [], receipts = []\<rparr>)"
    by code_simp
  have n: "calls (snd (app_post InitiatePayment send_number_as_json sample_env scripted ?b ?s1))
             \<noteq> calls ?s1 @ [token_request sample_env]"
    by code_simp
  from api_call_carries_fresh_token [of InitiatePayment send_number_as_json sample_env scripted ?b ?s1] n
  obtain tok s2 rq where
    "get_access_token sample_env scripted ?s1 = (Inr tok, s2)"
    "api_request InitiatePayment sample_env tok ?b = Inr rq"
    "map_of (req_headers rq) ''Authorization'' = Some [Lit ''Bearer '', Val tok]"
    "calls (snd (app_post InitiatePayment send_number_as_json sample_env scripted ?b ?s1)) =
       calls ?s1 @ [token_request sample_env, rq]"
    by blast
  with g have "api_request InitiatePayment sample_env (JStr ''T2'') ?b = Inr rq
     \<and> map_of (req_headers rq) ''Authorization'' = Some [Lit ''Bearer '', Val (JStr ''T2'')]
     \<and> calls (snd (app_post InitiatePayment send_number_as_json sample_env scripted ?b ?s1)) =
       calls ?s1 @ [token_request sample_env, rq]"
    by simp
  then have "api_request InitiatePayment sample_env (JStr ''T2'') ?b = Inr rq
     \<and> map_of (req_headers rq) ''Authorization'' = Some [Lit ''Bearer '', Val (JStr ''T2'')]
     \<and> calls (snd (app_post InitiatePayment send_number_as_json sample_env scripted ?b ?s1)) =
       [token_request sample_env, ?ct, token_request sample_env, rq]"
    by (simp only: s1 io.simps append.simps)
  with g show ?thesis by blast
qed

subsection \<open>POST /initiate-payment\<close>

lemma get_prop_undefined_iff:
  "get_prop b k = get_prop JUndefined k \<longleftrightarrow> b = JUndefined"
  by (cases b) (simp_all add: get_prop_def)

lemma get_prop_null_iff:
  "get_prop b k = get_prop JNull k \<longleftrightarrow> b = JNull"
  by (cases b) (simp_all add: get_prop_def)

lemma destructure_payment_defined:
  "b \<noteq> JUndefined \<Longrightarrow> b \<noteq> JNull \<Longrightarrow>
     destructure_payment b =
       (case get_prop b ''currency'' of
          Inl e \<Rightarrow> Inl e
        | Inr currency \<Rightarrow>
            (case get_prop b ''amount'' of
               Inl e \<Rightarrow> Inl e
             | Inr amount \<Rightarrow> Inr (currency, amount)))"
  by (cases b) (auto simp: destructure_payment_def split: sum.splits)

lemma destructure_payment_cong:
  assumes c: "get_prop b ''currency'' = get_prop b' ''currency''"
    and a: "get_prop b ''amount'' = get_prop b' ''amount''"
  shows "destructure_payment b = destructure_payment b'"
proof -
  have u: "b = JUndefined \<longleftrightarrow> b' = JUndefined"
    using c get_prop_undefined_iff [of b "''currency''"]
      get_prop_undefined_iff [of b' "''currency''"] by auto
  have n: "b = JNull \<longleftrightarrow> b' = JNull"
    using c get_prop_null_iff [of b "''currency''"]
      get_prop_null_iff [of b' "''currency''"] by auto
  show ?thesis
  proof (cases "b = JUndefined \<or> b = JNull")
    case True
    with u n show ?thesis by auto
  next
    case False
    with u n have d: "b \<noteq> JUndefined" "b \<noteq> JNull" and d': "b' \<noteq> JUndefined" "b' \<noteq> JNull"
      by auto
    show ?thesis
      unfolding destructure_payment_defined [OF d] destructure_payment_defined [OF d'] c a ..
  qed
qed

text \<open>
  Claim C9. If two request bodies agree on every property other than \<open>cardNumber\<close>,
  \<open>cardHolder\<close>, \<open>expiry\<close> and \<open>cvv\<close>, then \<open>/initiate-payment\<close> behaves the same on both:
  the same response, the same calls to the processor (so the same order payload), the same
  log lines and the same final state of the processor.
\<close>

theorem card_fields_do_not_interfere:
  fixes up :: "'w upstream"
  assumes "\<forall>k. k \<notin> {''cardNumber'', ''cardHolder'', ''expiry'', ''cvv''}
                \<longrightarrow> get_prop b k = get_prop b' k"
  shows "initiate_payment ex env up b s = initiate_payment ex env up b' s"
proof -
  have "get_prop b ''currency'' = get_prop b' ''currency''"
    and "get_prop b ''amount'' = get_prop b' ''amount''"
    using assms by simp_all
  then have d: "destructure_payment b = destructure_payment b'"
    by (rule destructure_payment_cong)
  show ?thesis
    unfolding initiate_payment_def initiate_payment_try_def d ..
qed

theorem card_fields_do_not_interfere_witness:
  "get_prop (payment_body ''4111111111111111'' ''123'' (JStr ''USD'') (JStr ''10.00''))
       ''cardNumber''
     \<noteq> get_prop (payment_body ''5555555555554444'' ''999'' (JStr ''USD'') (JStr ''10.00''))
         ''cardNumber''
   \<and> get_prop (payment_body ''4111111111111111'' ''123'' (JStr ''USD'') (JStr ''10.00'')) ''cvv''
     \<noteq> get_prop (payment_body ''5555555555554444'' ''999'' (JStr ''USD'') (JStr ''10.00'')) ''cvv''
   \<and> initiate_payment send_number_as_json sample_env scripted
         (payment_body ''4111111111111111'' ''123'' (JStr ''USD'') (JStr ''10.00''))
         (start [token_ok ''A21AA'', Response 201 (Inr created_order)])
     = initiate_payment send_number_as_json sample_env scripted
         (payment_body ''5555555555554444'' ''999'' (JStr ''USD'') (JStr ''10.00''))
         (start [token_ok ''A21AA'', Response 201 (Inr created_order)])"
proof -
  let ?b = "payment_body ''4111111111111111'' ''123'' (JStr ''USD'') (JStr ''10.00'')"
  let ?b' = "payment_body ''5555555555554444'' ''999'' (JStr ''USD'') (JStr ''10.00'')"
  have h: "\<forall>k. k \<notin> {''cardNumber'', ''cardHolder'', ''expiry'', ''cvv''}
        \<longrightarrow> get_prop ?b k = get_prop ?b' k"
    by (simp add: payment_body_def get_prop_def)
  have d: "get_prop ?b ''cardNumber'' \<noteq> get_prop ?b' ''cardNumber''"
    "get_prop ?b ''cvv'' \<noteq> get_prop ?b' ''cvv''"
    by (simp_all add: payment_body_def get_prop_def)
  from card_fields_do_not_interfere [OF h] d show ?thesis by blast
qed

text \<open>\<open>JSON.stringify\<close> writes a value that JSON can represent as it is.\<close>

lemma is_json_defined: "is_json v \<Longrightarrow> v \<noteq> JUndefined"
  by (cases v) simp_all

lemma is_json_fix: "is_json v \<Longrightarrow> JSON_value v = v"
proof (induction v)
  case (JArr xs)
  have a: "map JSON_value xs = xs"
  proof (rule map_idI)
    fix x assume "x \<in> set xs"
    with JArr show "JSON_value x = x" by simp
  qed
  have b: "map (\<lambda>v. if v = JUndefined then JNull else v) xs = xs"
  proof (rule map_idI)
    fix x assume "x \<in> set xs"
    with JArr.prems have "is_json x" by simp
    then show "(if x = JUndefined then JNull else x) = x"
      using is_json_defined by simp
  qed
  show ?case by (simp add: a b)
next
  case (JObj ps)
  have a: "map (map_prod id JSON_value) ps = ps"
  proof (rule map_idI)
    fix p assume p: "p \<in> set ps"
    obtain k v where kv: "p = (k, v)" by (cases p)
    from p kv JObj.prems have "is_json v" by force
    moreover from p kv have "v \<in> Basic_BNFs.snds p" by simp
    ultimately have "JSON_value v = v" using JObj.IH p by blast
    then show "map_prod id JSON_value p = p" by (simp add: kv)
  qed
  have "\<forall>p \<in> set ps. case p of (k, v) \<Rightarrow> v \<noteq> JUndefined"
  proof
    fix p assume p: "p \<in> set ps"
    obtain k v where kv: "p = (k, v)" by (cases p)
    from p kv JObj.prems have "is_json v" by force
    then show "case p of (k, v) \<Rightarrow> v \<noteq> JUndefined"
      using is_json_defined by (simp add: kv)
  qed
  then have b: "filter (\<lambda>(k, v). v \<noteq> JUndefined) ps = ps"
    by (rule filter_True)
  show ?case by (simp add: a b)
next
  case (JNum n) then show ?case by (cases n) simp_all
qed simp_all

lemma order_payload:
  assumes "is_json c" "is_json a"
  shows "JSON_value (order_data_json c a) =
     JObj [(''intent'', JStr ''CAPTURE''),
           (''purchase_units'',
              JArr [JObj [(''amount'', JObj [(''currency_code'', c), (''value'', a)])]])]"
  using assms is_json_fix [of c] is_json_fix [of a] is_json_defined [of c] is_json_defined [of a]
  by (simp add: order_data_json_def)

lemma destructure_payment_fields:
  assumes "get_prop b ''currency'' = Inr c" "get_prop b ''amount'' = Inr a"
  shows "destructure_payment b = Inr (c, a)"
proof -
  have "b \<noteq> JUndefined" "b \<noteq> JNull" using assms(1) by (auto simp: get_prop_def)
  from destructure_payment_defined [OF this] assms show ?thesis by simp
qed

lemma create_order_request_built:
  assumes "create_order_request env tok c a = Inr rq"
  shows "req_url rq = [Lit (endpoint_url env @ ''/v2/checkout/orders'')]
     \<and> req_method rq = ''POST''
     \<and> req_body rq = JsonBody (JSON_value (order_data_json c a))"
  using assms by (auto simp: create_order_request_def Let_def split: sum.splits)

lemma create_order_request_string:
  "\<exists>rq. create_order_request env (JStr t) c a = Inr rq"
  by (simp add: create_order_request_def splice_def)

lemma initiate_payment_calls:
  assumes "get_access_token env up s = (Inr tok, s1)"
    and "destructure_payment b = Inr (c, a)"
    and "create_order_request env tok c a = Inr rq"
  shows "calls (snd (initiate_payment ex env up b s)) = calls s @ [token_request env, rq]"
  using assms get_access_token_calls [OF assms(1)]
  by (auto simp: initiate_payment_def initiate_payment_try_def fetch_eq
      split: prod.splits sum.splits fetch_result.splits)

text \<open>
  Claim C2. Let the request body have the currency \<open>c\<close> and the amount \<open>a\<close>, values that
  JSON can represent: the strings of the order request, and also every boolean, finite
  number and \<open>null\<close>, and arrays and objects of these. Then every call that
  \<open>/initiate-payment\<close> makes after the token request is a POST to \<open>/v2/checkout/orders\<close>
  with the payload \<open>{intent: "CAPTURE", purchase_units: [{amount: {currency_code: c,
  value: a}}]}\<close>, and with a token string that call is made. When the processor answers it
  2xx with an order object, the handler answers 200 with that object as JSON, unchanged.
\<close>

theorem create_order_payload_and_relay:
  fixes up :: "'w upstream"
  assumes cur: "get_prop b ''currency'' = Inr c" and amt: "get_prop b ''amount'' = Inr a"
    and rep: "is_json c" "is_json a"
  shows
  "(calls (snd (initiate_payment ex env up b s)) = calls s @ [token_request env]
    \<or> (\<exists>rq. calls (snd (initiate_payment ex env up b s)) = calls s @ [token_request env, rq]
          \<and> req_url rq = [Lit (endpoint_url env @ ''/v2/checkout/orders'')]
          \<and> req_method rq = ''POST''
          \<and> req_body rq =
              JsonBody (JObj [(''intent'', JStr ''CAPTURE''),
                (''purchase_units'',
                   JArr [JObj [(''amount'',
                      JObj [(''currency_code'', c), (''value'', a)])]])])))
   \<and> (\<forall>t s1. get_access_token env up s = (Inr (JStr t), s1)
        \<longrightarrow> (\<exists>rq. create_order_request env (JStr t) c a = Inr rq
              \<and> calls (snd (initiate_payment ex env up b s)) =
                  calls s @ [token_request env, rq]))
   \<and> (\<forall>tok s1 rq st ps w.
        get_access_token env up s = (Inr tok, s1)
        \<longrightarrow> create_order_request env tok c a = Inr rq
        \<longrightarrow> up (world s1) rq = (Response st (Inr (JObj ps)), w)
        \<longrightarrow> response_ok st
        \<longrightarrow> fst (initiate_payment ex env up b s) =
              \<lparr>status = 200, res_body = Json (JObj ps)\<rparr>)"
proof (intro conjI allI impI)
  note d = destructure_payment_fields [OF cur amt]
  from app_post_calls [of InitiatePayment ex env up b s]
  consider "calls (snd (initiate_payment ex env up b s)) = calls s @ [token_request env]"
    | tok rq where "api_request InitiatePayment env tok b = Inr rq"
        "calls (snd (initiate_payment ex env up b s)) = calls s @ [token_request env, rq]"
    by auto
  then show "calls (snd (initiate_payment ex env up b s)) = calls s @ [token_request env]
    \<or> (\<exists>rq. calls (snd (initiate_payment ex env up b s)) = calls s @ [token_request env, rq]
          \<and> req_url rq = [Lit (endpoint_url env @ ''/v2/checkout/orders'')]
          \<and> req_method rq = ''POST''
          \<and> req_body rq =
              JsonBody (JObj [(''intent'', JStr ''CAPTURE''),
                (''purchase_units'',
                   JArr [JObj [(''amount'',
                      JObj [(''currency_code'', c), (''value'', a)])]])]))"
  proof cases
    case 1
    then show ?thesis by simp
  next
    case 2
    from 2(1) d have "create_order_request env tok c a = Inr rq" by simp
    from create_order_request_built [OF this] order_payload [OF rep] 2(2)
    show ?thesis by auto
  qed
next
  fix t s1
  assume g: "get_access_token env up s = (Inr (JStr t), s1)"
  note d = destructure_payment_fields [OF cur amt]
  obtain rq where rq: "create_order_request env (JStr t) c a = Inr rq"
    using create_order_request_string by blast
  from initiate_payment_calls [OF g d rq] rq
  show "\<exists>rq. create_order_request env (JStr t) c a = Inr rq
          \<and> calls (snd (initiate_payment ex env up b s)) = calls s @ [token_request env, rq]"
    by blast
next
  fix tok s1 rq st ps w
  assume "get_access_token env up s = (Inr tok, s1)"
    "create_order_request env tok c a = Inr rq"
    "up (world s1) rq = (Response st (Inr (JObj ps)), w)" "response_ok st"
  then show "fst (initiate_payment ex env up b s) = \<lparr>status = 200, res_body = Json (JObj ps)\<rparr>"
    using destructure_payment_fields [OF cur amt]
    by (simp add: initiate_payment_def initiate_payment_try_def fetch_eq res_send_def)
qed

theorem create_order_payload_and_relay_witness:
  "get_prop (payment_body ''4111111111111111'' ''123'' (JStr ''USD'') (JStr ''10.00''))
       ''currency'' = Inr (JStr ''USD'')
   \<and> get_prop (payment_body ''4111111111111111'' ''123'' (JStr ''USD'') (JStr ''10.00''))
       ''amount'' = Inr (JStr ''10.00'')
   \<and> is_json (JStr ''USD'') \<and> is_json (JStr ''10.00'')
   \<and> get_access_token sample_env scripted
         (start [token_ok ''A21AA'', Response 201 (Inr created_order)]) =
       (Inr (JStr ''A21AA''),
        \<lparr>world = [Response 201 (Inr created_order)], calls = [token_request sample_env],
         logs = [], receipts = []\<rparr>)
   \<and> create_order_request sample_env (JStr ''A21AA'') (JStr ''USD'') (JStr ''10.00'') =
       Inr sample_order_request
   \<and> response_ok 201
   \<and> calls (snd (initiate_payment send_number_as_json sample_env scripted
         (payment_body ''4111111111111111'' ''123'' (JStr ''USD'') (JStr ''10.00''))
         (start [token_ok ''A21AA'', Response 201 (Inr created_order)]))) =
       [token_request sample_env, sample_order_request]
   \<and> req_body sample_order_request =
       JsonBody (JObj [(''intent'', JStr ''CAPTURE''),
          (''purchase_units'',
             JArr [JObj [(''amount'',
                JObj [(''currency_code'', JStr ''USD''), (''value'', JStr ''10.00'')])]])])
   \<and> fst (initiate_payment send_number_as_json sample_env scripted
         (payment_body ''4111111111111111'' ''123'' (JStr ''USD'') (JStr ''10.00''))
         (start [token_ok ''A21AA'', Response 201 (Inr created_order)])) =
       \<lparr>status = 200, res_body = Json created_order\<rparr>"
proof -
  let ?b = "payment_body ''4111111111111111'' ''123'' (JStr ''USD'') (JStr ''10.00'')"
  let ?s = "start [token_ok ''A21AA'', Response 201 (Inr created_order)]"
  let ?s1 = "\<lparr>world = [Response 201 (Inr created_order)], calls = [token_request sample_env],
         logs = [], receipts = []\<rparr>"
  have h1: "get_prop ?b ''currency'' = Inr (JStr ''USD'')"
    and h2: "get_prop ?b ''amount'' = Inr (JStr ''10.00'')"
    by (simp_all add: payment_body_def get_prop_def)
  have h3: "is_json (JStr ''USD'')" and h4: "is_json (JStr ''10.00'')" by simp_all
  have h5: "get_access_token sample_env scripted ?s = (Inr (JStr ''A21AA''), ?s1)"
    by code_simp
  have h6: "create_order_request sample_env (JStr ''A21AA'') (JStr ''USD'') (JStr ''10.00'') =
              Inr sample_order_request"
    by code_simp
  have h7: "scripted (world ?s1) sample_order_request =
              (Response 201
                 (Inr (JObj [(''id'', JStr ''5O190127TN364715T''),
                             (''status'', JStr ''CREATED'')])), [])"
    by (simp add: scripted_def created_order_def)
  have h8: "response_ok 201" by (simp add: response_ok_def)
  have c0: "calls ?s = []" by (simp add: start_def)
  note t = create_order_payload_and_relay [OF h1 h2 h3 h4,
      of send_number_as_json sample_env scripted ?s]
  from t [THEN conjunct2, THEN conjunct1, rule_format, OF h5] h6 c0
  have a: "calls (snd (initiate_payment send_number_as_json sample_env scripted ?b ?s)) =
             [token_request sample_env, sample_order_request]"
    by auto
  from t [THEN conjunct2, THEN conjunct2, rule_format, OF h5 h6 h7 h8]
  have b: "fst (initiate_payment send_number_as_json sample_env scripted ?b ?s) =
             \<lparr>status = 200, res_body = Json created_order\<rparr>"
    by (simp add: created_order_def)
  have c: "req_body sample_order_request =
       JsonBody (JObj [(''intent'', JStr ''CAPTURE''),
          (''purchase_units'',
             JArr [JObj [(''amount'',
                JObj [(''currency_code'', JStr ''USD''), (''value'', JStr ''10.00'')])]])])"
    by (simp add: sample_order_request_def)
  from h1 h2 h3 h4 h5 h6 h8 a b c show ?thesis by blast
qed

subsection \<open>Error envelopes\<close>

lemma initiate_payment_caught:
  "initiate_payment_try ex env up b s = (Inl e, s1) \<Longrightarrow>
     fst (initiate_payment ex env up b s) = \<lparr>status = 500, res_body = ErrorObject e\<rparr>"
  by (simp add: initiate_payment_def)

lemma complete_order_caught:
  "complete_order_try env up b s = (Inl e, s1) \<Longrightarrow>
     fst (complete_order env up b s) =
       \<lparr>status = 500, res_body = Json (JObj [(''error'', JStr (message e))])\<rparr>"
  by (simp add: complete_order_def)

lemma get_client_token_caught:
  "get_client_token_try ex env up b s = (Inl e, s1) \<Longrightarrow>
     fst (get_client_token ex env up b s) =
       \<lparr>status = 500, res_body = Text ''An error occurred while processing the request.''\<rparr>"
  by (simp add: get_client_token_def)

lemma token_rejected_throws:
  assumes "up (world s) (token_request env) = (Response st js, w)" "\<not> response_ok st"
  shows "fst (initiate_payment_try ex env up b s) =
           Inl (JsError Error (''Failed to retrieve access token. Status: '' @ show_nat st))"
    and "fst (complete_order_try env up b s) =
           Inl (JsError Error (''Failed to retrieve access token. Status: '' @ show_nat st))"
    and "fst (get_client_token_try ex env up b s) =
           Inl (JsError Error (''Failed to retrieve access token. Status: '' @ show_nat st))"
  using assms get_access_token_rejected [of up s env st js w]
  by (simp_all add: initiate_payment_try_def complete_order_try_def get_client_token_try_def)

lemma api_rejected_throws:
  assumes tok: "get_access_token env up s = (Inr tok, s1)"
    and up: "up (world s1) rq = (Response st js, w)"
    and st: "\<not> response_ok st"
  shows "api_request InitiatePayment env tok b = Inr rq \<Longrightarrow>
           fst (initiate_payment_try ex env up b s) =
             Inl (JsError Error (''Failed to create payment order. Status: '' @ show_nat st))"
    and "api_request CompleteOrder env tok b = Inr rq \<Longrightarrow>
           fst (complete_order_try env up b s) =
             Inl (JsError Error (''Failed to complete order. Status: '' @ show_nat st))"
    and "api_request GetClientToken env tok b = Inr rq \<Longrightarrow>
           fst (get_client_token_try ex env up b s) =
             Inl (JsError Error (''Failed to retrieve client token. Status: '' @ show_nat st))"
proof -
  have f: "fetch up rq s1 = (Response st js, s1\<lparr>world := w, calls := calls s1 @ [rq]\<rparr>)"
    using up by (simp add: fetch_eq)
  show "api_request InitiatePayment env tok b = Inr rq \<Longrightarrow>
           fst (initiate_payment_try ex env up b s) =
             Inl (JsError Error (''Failed to create payment order. Status: '' @ show_nat st))"
    using tok f st by (auto simp: initiate_payment_try_def split: sum.splits)
  show "api_request CompleteOrder env tok b = Inr rq \<Longrightarrow>
           fst (complete_order_try env up b s) =
             Inl (JsError Error (''Failed to complete order. Status: '' @ show_nat st))"
    using tok f st by (simp add: complete_order_try_def)
  show "api_request GetClientToken env tok b = Inr rq \<Longrightarrow>
           fst (get_client_token_try ex env up b s) =
             Inl (JsError Error (''Failed to retrieve client token. Status: '' @ show_nat st))"
    using tok f st by (simp add: get_client_token_try_def)
qed

lemma caught_fst:
  "fst (initiate_payment_try ex env up b s) = Inl e \<Longrightarrow>
     fst (initiate_payment ex env up b s) = \<lparr>status = 500, res_body = ErrorObject e\<rparr>"
  "fst (complete_order_try env up b s) = Inl e \<Longrightarrow>
     fst (complete_order env up b s) =
       \<lparr>status = 500, res_body = Json (JObj [(''error'', JStr (message e))])\<rparr>"
  "fst (get_client_token_try ex env up b s) = Inl e \<Longrightarrow>
     fst (get_client_token ex env up b s) =
       \<lparr>status = 500, res_body = Text ''An error occurred while processing the request.''\<rparr>"
  by (cases "initiate_payment_try ex env up b s", simp add: initiate_payment_def)
     (cases "complete_order_try env up b s", simp add: complete_order_def,
      cases "get_client_token_try ex env up b s", simp add: get_client_token_def)

text \<open>
  Claim C8. Whenever the \<open>try\<close> block of a handler throws an error \<open>e\<close>, the handler
  answers 500 with: for \<open>/initiate-payment\<close>, the error value itself (\<open>res.send(err)\<close>); for
  \<open>/complete_order\<close>, the JSON object \<open>{error: e.message}\<close>; for \<open>/get_client_token\<close>, the
  fixed text \<open>An error occurred while processing the request.\<close> In particular a status
  outside 200..299 from the processor, on the token request or on the handler's own call,
  gives these answers with the message that names the failed call and the status. The
  answers of the three routes to failures are pairwise different, whatever the requests
  and the errors are.
\<close>

theorem error_envelopes:
  fixes up :: "'w upstream"
  shows
  "(\<forall>e s1. initiate_payment_try ex env up b s = (Inl e, s1) \<longrightarrow>
      fst (initiate_payment ex env up b s) = \<lparr>status = 500, res_body = ErrorObject e\<rparr>)
   \<and> (\<forall>e s1. complete_order_try env up b s = (Inl e, s1) \<longrightarrow>
      fst (complete_order env up b s) =
        \<lparr>status = 500, res_body = Json (JObj [(''error'', JStr (message e))])\<rparr>)
   \<and> (\<forall>e s1. get_client_token_try ex env up b s = (Inl e, s1) \<longrightarrow>
      fst (get_client_token ex env up b s) =
        \<lparr>status = 500, res_body = Text ''An error occurred while processing the request.''\<rparr>)
   \<and> (\<forall>st js w.
        up (world s) (token_request env) = (Response st js, w) \<longrightarrow> \<not> response_ok st \<longrightarrow>
        fst (initiate_payment ex env up b s) =
          \<lparr>status = 500,
           res_body = ErrorObject (JsError Error
             (''Failed to retrieve access token. Status: '' @ show_nat st))\<rparr>
        \<and> fst (complete_order env up b s) =
          \<lparr>status = 500,
           res_body = Json (JObj [(''error'',
             JStr (''Failed to retrieve access token. Status: '' @ show_nat st))])\<rparr>
        \<and> fst (get_client_token ex env up b s) =
          \<lparr>status = 500,
           res_body = Text ''An error occurred while processing the request.''\<rparr>)
   \<and> (\<forall>tok s1 rq st js w.
        get_access_token env up s = (Inr tok, s1) \<longrightarrow>
        up (world s1) rq = (Response st js, w) \<longrightarrow> \<not> response_ok st \<longrightarrow>
        (api_request InitiatePayment env tok b = Inr rq \<longrightarrow>
           fst (initiate_payment ex env up b s) =
             \<lparr>status = 500,
              res_body = ErrorObject (JsError Error
                (''Failed to create payment order. Status: '' @ show_nat st))\<rparr>)
        \<and> (api_request CompleteOrder env tok b = Inr rq \<longrightarrow>
           fst (complete_order env up b s) =
             \<lparr>status = 500,
              res_body = Json (JObj [(''error'',
                JStr (''Failed to complete order. Status: '' @ show_nat st))])\<rparr>)
        \<and> (api_request GetClientToken env tok b = Inr rq \<longrightarrow>
           fst (get_client_token ex env up b s) =
             \<lparr>status = 500,
              res_body = Text ''An error occurred while processing the request.''\<rparr>))
   \<and> (\<forall>b1 b2 b3 s1 s2 s3 e1 e2 e3 t1 t2 t3.
        initiate_payment_try ex env up b1 s1 = (Inl e1, t1) \<longrightarrow>
        complete_order_try env up b2 s2 = (Inl e2, t2) \<longrightarrow>
        get_client_token_try ex env up b3 s3 = (Inl e3, t3) \<longrightarrow>
        fst (initiate_payment ex env up b1 s1) \<noteq> fst (complete_order env up b2 s2)
        \<and> fst (initiate_payment ex env up b1 s1) \<noteq> fst (get_client_token ex env up b3 s3)
        \<and> fst (complete_order env up b2 s2) \<noteq> fst (get_client_token ex env up b3 s3))"
proof (intro conjI allI impI)
  fix e s1 assume "initiate_payment_try ex env up b s = (Inl e, s1)"
  then show "fst (initiate_payment ex env up b s) = \<lparr>status = 500, res_body = ErrorObject e\<rparr>"
    by (rule initiate_payment_caught)
next
  fix e s1 assume "complete_order_try env up b s = (Inl e, s1)"
  then show "fst (complete_order env up b s) =
        \<lparr>status = 500, res_body = Json (JObj [(''error'', JStr (message e))])\<rparr>"
    by (rule complete_order_caught)
next
  fix e s1 assume "get_client_token_try ex env up b s = (Inl e, s1)"
  then show "fst (get_client_token ex env up b s) =
        \<lparr>status = 500, res_body = Text ''An error occurred while processing the request.''\<rparr>"
    by (rule get_client_token_caught)
next
  fix st js w
  assume a: "up (world s) (token_request env) = (Response st js, w)" "\<not> response_ok st"
  note t = token_rejected_throws [where up = up and s = s, OF a]
  show "fst (initiate_payment ex env up b s) =
          \<lparr>status = 500,
           res_body = ErrorObject (JsError Error
             (''Failed to retrieve access token. Status: '' @ show_nat st))\<rparr>"
    using caught_fst(1) [OF t(1)] .
  show "fst (complete_order env up b s) =
          \<lparr>status = 500,
           res_body = Json (JObj [(''error'',
             JStr (''Failed to retrieve access token. Status: '' @ show_nat st))])\<rparr>"
    using caught_fst(2) [OF t(2)] by simp
  show "fst (get_client_token ex env up b s) =
          \<lparr>status = 500,
           res_body = Text ''An error occurred while processing the request.''\<rparr>"
    using caught_fst(3) [OF t(3)] .
next
  fix tok s1 rq st js w
  assume a: "get_access_token env up s = (Inr tok, s1)"
    "up (world s1) rq = (Response st js, w)" "\<not> response_ok st"
  note t = api_rejected_throws [where up = up and s = s, OF a]
  {
    assume "api_request InitiatePayment env tok b = Inr rq"
    from caught_fst(1) [OF t(1) [OF this]]
    show "fst (initiate_payment ex env up b s) =
             \<lparr>status = 500,
              res_body = ErrorObject (JsError Error
                (''Failed to create payment order. Status: '' @ show_nat st))\<rparr>" .
  next
    assume "api_request CompleteOrder env tok b = Inr rq"
    from caught_fst(2) [OF t(2) [OF this]]
    show "fst (complete_order env up b s) =
             \<lparr>status = 500,
              res_body = Json (JObj [(''error'',
                JStr (''Failed to complete order. Status: '' @ show_nat st))])\<rparr>"
      by simp
  next
    assume "api_request GetClientToken env tok b = Inr rq"
    from caught_fst(3) [OF t(3) [OF this]]
    show "fst (get_client_token ex env up b s) =
             \<lparr>status = 500,
              res_body = Text ''An error occurred while processing the request.''\<rparr>" .
  }
next
  fix b1 b2 b3 s1 s2 s3 e1 e2 e3 t1 t2 t3
  assume a: "initiate_payment_try ex env up b1 s1 = (Inl e1, t1)"
    "complete_order_try env up b2 s2 = (Inl e2, t2)"
    "get_client_token_try ex env up b3 s3 = (Inl e3, t3)"
  note r = initiate_payment_caught [OF a(1)] complete_order_caught [OF a(2)]
    get_client_token_caught [OF a(3)]
  show "fst (initiate_payment ex env up b1 s1) \<noteq> fst (complete_order env up b2 s2)"
    and "fst (initiate_payment ex env up b1 s1) \<noteq> fst (get_client_token ex env up b3 s3)"
    and "fst (complete_order env up b2 s2) \<noteq> fst (get_client_token ex env up b3 s3)"
    by (simp_all add: r)
qed

theorem error_envelopes_witness:
  "scripted (world (start [Response 401 (Inr JNull)])) (token_request sample_env) =
     (Response 401 (Inr JNull), [])
   \<and> \<not> response_ok 401
   \<and> fst (initiate_payment send_number_as_json sample_env scripted capture_body
            (start [Response 401 (Inr JNull)])) =
       \<lparr>status = 500,
        res_body = ErrorObject (JsError Error ''Failed to retrieve access token. Status: 401'')\<rparr>
   \<and> fst (complete_order sample_env scripted capture_body (start [Response 401 (Inr JNull)])) =
       \<lparr>status = 500,
        res_body = Json (JObj [(''error'',
                     JStr ''Failed to retrieve access token. Status: 401'')])\<rparr>
   \<and> fst (get_client_token send_number_as_json sample_env scripted capture_body
            (start [Response 401 (Inr JNull)])) =
       \<lparr>status = 500, res_body = Text ''An error occurred while processing the request.''\<rparr>
   \<and> get_access_token sample_env scripted
         (start [token_ok ''A21AA'', Response 422 (Inr JNull)]) =
       (Inr (JStr ''A21AA''),
        \<lparr>world = [Response 422 (Inr JNull)], calls = [token_request sample_env],
         logs = [], receipts = []\<rparr>)
   \<and> api_request InitiatePayment sample_env (JStr ''A21AA'')
         (payment_body ''4111111111111111'' ''123'' (JStr ''USD'') (JStr ''10.00'')) =
       Inr sample_order_request
   \<and> \<not> response_ok 422
   \<and> fst (initiate_payment send_number_as_json sample_env scripted
         (payment_body ''4111111111111111'' ''123'' (JStr ''USD'') (JStr ''10.00''))
         (start [token_ok ''A21AA'', Response 422 (Inr JNull)])) =
       \<lparr>status = 500,
        res_body = ErrorObject (JsError Error ''Failed to create payment order. Status: 422'')\<rparr>
   \<and> fst (initiate_payment send_number_as_json sample_env scripted capture_body
            (start [Response 401 (Inr JNull)]))
       \<noteq> fst (complete_order sample_env scripted capture_body (start [Response 401 (Inr JNull)]))
   \<and> fst (initiate_payment send_number_as_json sample_env scripted capture_body
            (start [Response 401 (Inr JNull)]))
       \<noteq> fst (get_client_token send_number_as_json sample_env scripted capture_body
            (start [Response 401 (Inr JNull)]))
   \<and> fst (complete_order sample_env scripted capture_body (start [Response 401 (Inr JNull)]))
       \<noteq> fst (get_client_token send_number_as_json sample_env scripted capture_body
            (start [Response 401 (Inr JNull)]))"
proof -
  let ?s = "start [Response 401 (Inr JNull)]"
  let ?t = "start [token_ok ''A21AA'', Response 422 (Inr JNull)]"
  let ?t1 = "\<lparr>world = [Response 422 (Inr JNull)], calls = [token_request sample_env],
              logs = [], receipts = []\<rparr>"
  let ?b = "payment_body ''4111111111111111'' ''123'' (JStr ''USD'') (JStr ''10.00'')"
  let ?e = "JsError Error ''Failed to retrieve access token. Status: 401''"
  let ?s1 = "\<lparr>world = [], calls = [token_request sample_env], logs = [], receipts = []\<rparr>"
  have n1: "show_nat 401 = ''401''" and n2: "show_nat 422 = ''422''" by code_simp+
  have h1: "scripted (world ?s) (token_request sample_env) = (Response 401 (Inr JNull), [])"
    by (simp add: scripted_def start_def)
  have h2: "\<not> response_ok 401" and h2': "\<not> response_ok 422"
    by (simp_all add: response_ok_def)
  have h3: "get_access_token sample_env scripted ?t = (Inr (JStr ''A21AA''), ?t1)"
    by code_simp
  have h4: "api_request InitiatePayment sample_env (JStr ''A21AA'') ?b = Inr sample_order_request"
    by code_simp
  have h5: "scripted (world ?t1) sample_order_request = (Response 422 (Inr JNull), [])"
    by (simp add: scripted_def)
  have i: "initiate_payment_try send_number_as_json sample_env scripted capture_body ?s =
      (Inl ?e, ?s1)"
    by code_simp
  have c: "complete_order_try sample_env scripted capture_body ?s = (Inl ?e, ?s1)"
    by code_simp
  have g: "get_client_token_try send_number_as_json sample_env scripted capture_body ?s =
      (Inl ?e, ?s1)"
    by code_simp
  note t = error_envelopes [of send_number_as_json sample_env scripted]
  note t4 = t [of _ ?s, THEN conjunct2, THEN conjunct2, THEN conjunct2, THEN conjunct1,
      rule_format, OF h1 h2, of capture_body]
  note t5 = t [of ?b ?t, THEN conjunct2, THEN conjunct2, THEN conjunct2, THEN conjunct2,
      THEN conjunct1, rule_format, OF h3 h5 h2', THEN conjunct1, rule_format, OF h4]
  note t6 = t [of capture_body ?s, THEN conjunct2, THEN conjunct2, THEN conjunct2,
      THEN conjunct2, THEN conjunct2, rule_format, OF i c g]
  from t4 t5 t6 h1 h2 h2' h3 h4 show ?thesis by (simp add: n1 n2)
qed

subsection \<open>POST /get_client_token\<close>

text \<open>
  Claim C6 says that a \<open>customer_id\<close> present in the body is sent as
  \<open>{customer_id: <that id>}\<close>, and that on a 2xx answer the handler responds with the
  \<open>client_token\<close> of the processor's JSON as plain text. The handler tests the truthiness
  of \<open>req.body.customer_id\<close>: with the body \<open>{"customer_id": ""}\<close> the id is present, and the
  request to the processor has no body. A truthy id that JSON cannot represent is not sent
  as it is either: the id parsed from \<open>1e999\<close> is sent as \<open>{customer_id: null}\<close>. A 2xx
  answer whose JSON is \<open>null\<close> has no \<open>client_token\<close> to read, and the handler answers 500;
  a \<open>client_token\<close> that is not a string is not sent as text but handed to \<open>res.json\<close>.
\<close>

theorem get_client_token_falsy_customer_id:
  "get_prop (JObj [(''customer_id'', JStr [])]) ''customer_id'' = Inr (JStr [])
   \<and> map req_body (calls (snd (get_client_token send_number_as_json sample_env scripted
         (JObj [(''customer_id'', JStr [])])
         (start [token_ok ''A21AA'',
                 Response 200 (Inr (JObj [(''client_token'', JStr ''eyJicmFpbnRyZWUi'')]))])))) =
       [TextBody ''grant_type=client_credentials'', NoBody]
   \<and> truthy (JNum PosInfinity)
   \<and> map req_body (calls (snd (get_client_token send_number_as_json sample_env scripted
         (JObj [(''customer_id'', JNum PosInfinity)])
         (start [token_ok ''A21AA'',
                 Response 200 (Inr (JObj [(''client_token'', JStr ''eyJicmFpbnRyZWUi'')]))])))) =
       [TextBody ''grant_type=client_credentials'',
        JsonBody (JObj [(''customer_id'', JNull)])]
   \<and> response_ok 200
   \<and> fst (get_client_token send_number_as_json sample_env scripted (JObj [])
         (start [token_ok ''A21AA'', Response 200 (Inr JNull)])) =
       \<lparr>status = 500, res_body = Text ''An error occurred while processing the request.''\<rparr>
   \<and> fst (get_client_token send_number_as_json sample_env scripted (JObj [])
         (start [token_ok ''A21AA'',
                 Response 200 (Inr (JObj [(''client_token'',
                    JObj [(''value'', JStr ''eyJicmFpbnRyZWUi'')])]))])) =
       \<lparr>status = 200, res_body = Json (JObj [(''value'', JStr ''eyJicmFpbnRyZWUi'')])\<rparr>"
  by code_simp

lemma customer_payload:
  assumes "truthy cid" "is_json cid"
  shows "JSON_value (JObj [(''customer_id'', cid)]) = JObj [(''customer_id'', cid)]"
  using is_json_fix [of cid] is_json_defined [of cid] assms by simp

lemma client_token_request_built:
  assumes "client_token_request env tok b = Inr rq" "get_prop b ''customer_id'' = Inr cid"
  shows "req_url rq = [Lit (endpoint_url env @ ''/v1/identity/generate-token'')]
     \<and> req_body rq =
         (if truthy cid then JsonBody (JSON_value (JObj [(''customer_id'', cid)])) else NoBody)"
  using assms
  by (auto simp: client_token_request_def client_token_payload_def split: sum.splits if_splits)

lemma client_token_request_string:
  "get_prop b ''customer_id'' = Inr cid \<Longrightarrow> \<exists>rq. client_token_request env (JStr t) b = Inr rq"
  by (simp add: client_token_request_def client_token_payload_def splice_def)

lemma get_client_token_calls:
  assumes "get_access_token env up s = (Inr tok, s1)"
    and "client_token_request env tok b = Inr rq"
  shows "calls (snd (get_client_token ex env up b s)) = calls s @ [token_request env, rq]"
  using assms get_access_token_calls [OF assms(1)]
  by (auto simp: get_client_token_def get_client_token_try_def fetch_eq
      split: prod.splits sum.splits fetch_result.splits)

text \<open>
  Claim C6, amended. Every call that \<open>/get_client_token\<close> makes after the token request
  goes to \<open>/v1/identity/generate-token\<close>; it has no body when \<open>customer_id\<close> is absent or
  falsy (the empty string, \<open>0\<close>, \<open>false\<close>, \<open>null\<close>), and when \<open>customer_id\<close> is truthy its
  body is \<open>JSON.stringify({customer_id: id})\<close>, which is exactly \<open>{customer_id: id}\<close> for
  every id that JSON can represent. With a token string that call is made. When the
  processor answers it 2xx with a JSON body whose \<open>client_token\<close> is a string, the handler
  responds with that string as plain text.
\<close>

theorem client_token_request_and_relay:
  fixes up :: "'w upstream"
  assumes cid: "get_prop b ''customer_id'' = Inr cid"
  shows
  "(calls (snd (get_client_token ex env up b s)) = calls s @ [token_request env]
    \<or> (\<exists>rq. calls (snd (get_client_token ex env up b s)) = calls s @ [token_request env, rq]
          \<and> req_url rq = [Lit (endpoint_url env @ ''/v1/identity/generate-token'')]
          \<and> (\<not> truthy cid \<longrightarrow> req_body rq = NoBody)
          \<and> (truthy cid \<longrightarrow>
                req_body rq = JsonBody (JSON_value (JObj [(''customer_id'', cid)])))
          \<and> (truthy cid \<longrightarrow> is_json cid \<longrightarrow>
                req_body rq = JsonBody (JObj [(''customer_id'', cid)]))))
   \<and> (\<forall>t s1. get_access_token env up s = (Inr (JStr t), s1)
        \<longrightarrow> (\<exists>rq. client_token_request env (JStr t) b = Inr rq
              \<and> calls (snd (get_client_token ex env up b s)) =
                  calls s @ [token_request env, rq]))
   \<and> (\<forall>tok s1 rq st data t w.
        get_access_token env up s = (Inr tok, s1)
        \<longrightarrow> client_token_request env tok b = Inr rq
        \<longrightarrow> up (world s1) rq = (Response st (Inr data), w)
        \<longrightarrow> response_ok st
        \<longrightarrow> get_prop data ''client_token'' = Inr (JStr t)
        \<longrightarrow> fst (get_client_token ex env up b s) = \<lparr>status = 200, res_body = Text t\<rparr>)"
proof (intro conjI allI impI)
  from app_post_calls [of GetClientToken ex env up b s]
  consider "calls (snd (get_client_token ex env up b s)) = calls s @ [token_request env]"
    | tok rq where "api_request GetClientToken env tok b = Inr rq"
        "calls (snd (get_client_token ex env up b s)) = calls s @ [token_request env, rq]"
    by auto
  then show "calls (snd (get_client_token ex env up b s)) = calls s @ [token_request env]
    \<or> (\<exists>rq. calls (snd (get_client_token ex env up b s)) = calls s @ [token_request env, rq]
          \<and> req_url rq = [Lit (endpoint_url env @ ''/v1/identity/generate-token'')]
          \<and> (\<not> truthy cid \<longrightarrow> req_body rq = NoBody)
          \<and> (truthy cid \<longrightarrow>
                req_body rq = JsonBody (JSON_value (JObj [(''customer_id'', cid)])))
          \<and> (truthy cid \<longrightarrow> is_json cid \<longrightarrow>
                req_body rq = JsonBody (JObj [(''customer_id'', cid)])))"
  proof cases
    case 1
    then show ?thesis by simp
  next
    case 2
    from 2(1) have "client_token_request env tok b = Inr rq" by simp
    from client_token_request_built [OF this cid] customer_payload [of cid] 2(2)
    show ?thesis by auto
  qed
next
  fix t s1
  assume g: "get_access_token env up s = (Inr (JStr t), s1)"
  obtain rq where rq: "client_token_request env (JStr t) b = Inr rq"
    using client_token_request_string [OF cid] by blast
  from get_client_token_calls [OF g rq] rq
  show "\<exists>rq. client_token_request env (JStr t) b = Inr rq
          \<and> calls (snd (get_client_token ex env up b s)) = calls s @ [token_request env, rq]"
    by blast
next
  fix tok s1 rq st data t w
  assume "get_access_token env up s = (Inr tok, s1)"
    "client_token_request env tok b = Inr rq"
    "up (world s1) rq = (Response st (Inr data), w)" "response_ok st"
    "get_prop data ''client_token'' = Inr (JStr t)"
  then show "fst (get_client_token ex env up b s) = \<lparr>status = 200, res_body = Text t\<rparr>"
    by (simp add: get_client_token_def get_client_token_try_def fetch_eq res_send_def)
qed

theorem client_token_request_and_relay_witness:
  "get_prop (JObj [(''customer_id'', JStr ''cust_1'')]) ''customer_id'' = Inr (JStr ''cust_1'')
   \<and> truthy (JStr ''cust_1'') \<and> is_json (JStr ''cust_1'')
   \<and> get_access_token sample_env scripted
         (start [token_ok ''A21AA'',
                 Response 200 (Inr (JObj [(''client_token'', JStr ''eyJicmFpbnRyZWUi'')]))]) =
       (Inr (JStr ''A21AA''),
        \<lparr>world = [Response 200 (Inr (JObj [(''client_token'', JStr ''eyJicmFpbnRyZWUi'')]))],
         calls = [token_request sample_env], logs = [], receipts = []\<rparr>)
   \<and> response_ok 200
   \<and> get_prop (JObj [(''client_token'', JStr ''eyJicmFpbnRyZWUi'')]) ''client_token'' =
       Inr (JStr ''eyJicmFpbnRyZWUi'')
   \<and> (\<exists>rq. client_token_request sample_env (JStr ''A21AA'')
               (JObj [(''customer_id'', JStr ''cust_1'')]) = Inr rq
         \<and> req_body rq = JsonBody (JObj [(''customer_id'', JStr ''cust_1'')])
         \<and> calls (snd (get_client_token send_number_as_json sample_env scripted
               (JObj [(''customer_id'', JStr ''cust_1'')])
               (start [token_ok ''A21AA'',
                  Response 200 (Inr (JObj [(''client_token'', JStr ''eyJicmFpbnRyZWUi'')]))]))) =
             [token_request sample_env, rq])
   \<and> fst (get_client_token send_number_as_json sample_env scripted
         (JObj [(''customer_id'', JStr ''cust_1'')])
         (start [token_ok ''A21AA'',
                 Response 200 (Inr (JObj [(''client_token'', JStr ''eyJicmFpbnRyZWUi'')]))])) =
       \<lparr>status = 200, res_body = Text ''eyJicmFpbnRyZWUi''\<rparr>
   \<and> get_prop (JObj []) ''customer_id'' = Inr JUndefined \<and> \<not> truthy JUndefined
   \<and> (\<exists>rq. client_token_request sample_env (JStr ''A21AA'') (JObj []) = Inr rq
         \<and> req_body rq = NoBody
         \<and> calls (snd (get_client_token send_number_as_json sample_env scripted (JObj [])
               (start [token_ok ''A21AA'',
                  Response 200 (Inr (JObj [(''client_token'', JStr ''eyJicmFpbnRyZWUi'')]))]))) =
             [token_request sample_env, rq])"
proof -
  let ?data = "JObj [(''client_token'', JStr ''eyJicmFpbnRyZWUi'')]"
  let ?s = "start [token_ok ''A21AA'', Response 200 (Inr ?data)]"
  let ?s1 = "\<lparr>world = [Response 200 (Inr ?data)], calls = [token_request sample_env],
              logs = [], receipts = []\<rparr>"
  let ?b = "JObj [(''customer_id'', JStr ''cust_1'')]"
  let ?g = "\<lambda>b. get_client_token send_number_as_json sample_env scripted b ?s"
  have h1: "get_prop ?b ''customer_id'' = Inr (JStr ''cust_1'')"
    and h1': "get_prop (JObj []) ''customer_id'' = Inr JUndefined"
    by (simp_all add: get_prop_def)
  have h2: "get_access_token sample_env scripted ?s = (Inr (JStr ''A21AA''), ?s1)"
    by code_simp
  have h3: "truthy (JStr ''cust_1'')" "is_json (JStr ''cust_1'')" "\<not> truthy JUndefined"
    by simp_all
  have h4: "scripted (world ?s1) rq = (Response 200 (Inr ?data), [])" for rq
    by (simp add: scripted_def)
  have h5: "response_ok 200" by (simp add: response_ok_def)
  have h6: "get_prop ?data ''client_token'' = Inr (JStr ''eyJicmFpbnRyZWUi'')"
    by (simp add: get_prop_def)
  have c0: "calls ?s = []" by (simp add: start_def)
  note t = client_token_request_and_relay [OF h1, of send_number_as_json sample_env scripted ?s]
  note t' = client_token_request_and_relay [OF h1', of send_number_as_json sample_env scripted ?s]
  from t [THEN conjunct2, THEN conjunct1, rule_format, OF h2] obtain rq where rq:
    "client_token_request sample_env (JStr ''A21AA'') ?b = Inr rq"
    "calls (snd (?g ?b)) = calls ?s @ [token_request sample_env, rq]"
    by blast
  from t [THEN conjunct1] rq(2) h3
  have rb: "req_body rq = JsonBody (JObj [(''customer_id'', JStr ''cust_1'')])"
    by auto
  from t [THEN conjunct2, THEN conjunct2, rule_format, OF h2 rq(1) h4 h5 h6]
  have a: "fst (?g ?b) = \<lparr>status = 200, res_body = Text ''eyJicmFpbnRyZWUi''\<rparr>" .
  from rq rb c0
  have b: "\<exists>rq. client_token_request sample_env (JStr ''A21AA'') ?b = Inr rq
         \<and> req_body rq = JsonBody (JObj [(''customer_id'', JStr ''cust_1'')])
         \<and> calls (snd (?g ?b)) = [token_request sample_env, rq]"
    by auto
  from t' [THEN conjunct2, THEN conjunct1, rule_format, OF h2] obtain rq' where rq':
    "client_token_request sample_env (JStr ''A21AA'') (JObj []) = Inr rq'"
    "calls (snd (?g (JObj []))) = calls ?s @ [token_request sample_env, rq']"
    by blast
  from t' [THEN conjunct1] rq'(2) h3
  have rb': "req_body rq' = NoBody"
    by auto
  from rq' rb' c0
  have c: "\<exists>rq. client_token_request sample_env (JStr ''A21AA'') (JObj []) = Inr rq
         \<and> req_body rq = NoBody
         \<and> calls (snd (?g (JObj []))) = [token_request sample_env, rq]"
    by auto
  from h1 h1' h2 h3 h5 h6 a b c show ?thesis by blast
qed


subsection \<open>Numbers handed to \<open>res.send\<close>\<close>

text \<open>
  A numeric value handed to \<open>res.send\<close> is answered as Express answers a number: when
  Express takes it as the status code, the processor's body \<open>404\<close> gives the answer 404, and
  when it throws, the \<open>catch\<close> clause answers 500.
\<close>

lemma initiate_payment_numeric_body:
  assumes "get_access_token env up s = (Inr tok, s1)"
    and "api_request InitiatePayment env tok b = Inr rq"
    and "up (world s1) rq = (Response st (Inr (JNum n)), w)" and "response_ok st"
  shows "fst (initiate_payment ex env up b s) =
     (case ex n of
        Inl e \<Rightarrow> \<lparr>status = 500, res_body = ErrorObject e\<rparr>
      | Inr r \<Rightarrow> r)"
  using assms
  by (auto simp: initiate_payment_def initiate_payment_try_def fetch_eq res_send_def
      split: sum.splits)

lemma get_client_token_numeric_token:
  assumes "get_access_token env up s = (Inr tok, s1)"
    and "client_token_request env tok b = Inr rq"
    and "up (world s1) rq = (Response st (Inr data), w)" and "response_ok st"
    and "get_prop data ''client_token'' = Inr (JNum n)"
  shows "fst (get_client_token ex env up b s) =
     (case ex n of
        Inl e \<Rightarrow>
          \<lparr>status = 500, res_body = Text ''An error occurred while processing the request.''\<rparr>
      | Inr r \<Rightarrow> r)"
  using assms
  by (auto simp: get_client_token_def get_client_token_try_def fetch_eq res_send_def
      split: sum.splits)

end
